theory Spec2Isabelle
  imports Main
begin

section \<open>Data model\<close>

text \<open>
  The server of the chess repository (routes, storage and schema, all three in
  \<^verbatim>\<open>src/shared/schema.ts\<close>) keeps its shared state in two places: the process-wide map
  \<^verbatim>\<open>clients\<close> from sockets to \<^verbatim>\<open>ClientConnection\<close> objects, and the database tables
  \<^verbatim>\<open>rooms\<close>, \<^verbatim>\<open>games\<close> and \<^verbatim>\<open>chat_messages\<close>. Every handler is modelled as a function from
  the state before to the state after; what a handler sends is appended to \<open>outbox\<close>.
  A handler runs to completion here: interleaving of two handlers at an \<^verbatim>\<open>await\<close> is not
  modelled. Timestamps (\<^verbatim>\<open>createdAt\<close>, \<^verbatim>\<open>updatedAt\<close>) are left out.
\<close>

text \<open>\<^verbatim>\<open>'white' | 'black'\<close>: the colour of a seat and the text column \<^verbatim>\<open>current_turn\<close>.\<close>

datatype color = White | Black

text \<open>\<^verbatim>\<open>'w' | 'b'\<close>: the colour as the chess library names it.\<close>

datatype side = W | B

text \<open>The values of the text column \<^verbatim>\<open>status\<close>.\<close>

datatype status = Waiting | Active | Checkmate | Draw | Resigned

text \<open>A socket handle, the key of the \<^verbatim>\<open>clients\<close> map.\<close>

type_synonym ws = nat

record ClientConnection =
  roomId :: "nat option"
  playerId :: "nat option"
  playerName :: "string option"
  color :: "color option"

record Room =
  room_id :: nat
  room_code :: string
  player1Id :: "nat option"
  player2Id :: "nat option"
  isActive :: bool

record Game =
  game_id :: nat
  game_roomId :: nat
  currentTurn :: color
  boardState :: string
  moveHistory :: "string list"
  status :: status
  winner :: "color option"

record ChatMessage =
  chat_id :: nat
  chat_roomId :: nat
  chat_playerId :: "nat option"
  chat_playerName :: string
  chat_message :: string

text \<open>
  The chat text of a \<^verbatim>\<open>send_chat\<close> message is handed to the database as it comes:
  \<open>Absent\<close> is \<^verbatim>\<open>undefined\<close> or \<^verbatim>\<open>null\<close>, \<open>Str t\<close> the string \<open>t\<close>, and \<open>NonString r\<close> any
  other JSON value (a number, a boolean, an array, an object), where \<open>r\<close> is the text the
  database driver renders that value to.
\<close>

datatype payload = Absent | Str string | NonString string

text \<open>
  An inbound message is \<^verbatim>\<open>message: any\<close>, the result of \<^verbatim>\<open>JSON.parse\<close>. The handlers read
  seven of its fields. The first six are modelled as absent (\<open>None\<close>, for \<^verbatim>\<open>undefined\<close> and
  \<^verbatim>\<open>null\<close>) or a string; for \<open>msg_type\<close>, \<open>None\<close> also stands for a value that is no
  string, which no \<^verbatim>\<open>case\<close> of the dispatcher equals. A message is what \<^verbatim>\<open>JSON.parse\<close>
  returned when that is not \<^verbatim>\<open>null\<close>: an object, or a number, string, boolean or array,
  all of whose fields read as \<^verbatim>\<open>undefined\<close>.
\<close>

record message =
  msg_type :: "string option"
  msg_playerName :: "string option"
  msg_roomCode :: "string option"
  msg_from :: "string option"
  msg_to :: "string option"
  msg_promotion :: "string option"
  msg_message :: payload

text \<open>
  A frame as it arrives: \<open>Unparseable\<close> when \<^verbatim>\<open>JSON.parse\<close> throws, \<open>ParsedNull\<close> when it
  returns \<^verbatim>\<open>null\<close> (reading \<^verbatim>\<open>message.type\<close> then throws), and a message otherwise.
\<close>

datatype frame = Unparseable | ParsedNull | Parsed message

subsection \<open>Outbound events\<close>

record gameStateView =
  gs_fen :: string
  gs_currentTurn :: color
  gs_moveHistory :: "string list"
  gs_status :: status

record moveGameState = gameStateView +
  gs_winner :: "color option"
  gs_check :: bool
  gs_checkmate :: bool
  gs_draw :: bool
  gs_stalemate :: bool
  gs_turn :: side
  gs_gameOver :: bool

record movePayload =
  mv_from :: "string option"
  mv_to :: "string option"
  mv_promotion :: "string option"
  mv_san :: string
  mv_piece :: string
  mv_captured :: "string option"

datatype event =
    Connected
  | Error string
  | RoomCreated string nat color gameStateView
  | RoomJoined string nat color gameStateView "ChatMessage list"
  | GameStarted gameStateView
  | MoveMade movePayload moveGameState
  | ChatMessageEvent nat string string
  | GameEnded color "color option"
  | DrawOffered "color option"

subsection \<open>The chess library\<close>

text \<open>
  \<^verbatim>\<open>chess.js\<close> is a dependency, not code of the repository: the handlers take it as a
  parameter. A \<^verbatim>\<open>Chess\<close> object is a position of type \<open>'pos\<close>; \<^verbatim>\<open>chess.move\<close> mutates
  the object, so the model returns the position after the move. \<^verbatim>\<open>new Chess(fen)\<close> and
  \<^verbatim>\<open>chess.move\<close> may throw.
\<close>

record Piece =
  piece_type :: string
  piece_color :: side

record Move =
  move_san :: string
  move_piece :: string
  move_captured :: "string option"

datatype 'pos move_attempt = MoveThrows | MoveNull | MoveOk Move 'pos

record 'pos Chess =
  chess_new :: 'pos
  chess_load :: "string \<Rightarrow> 'pos option"
  chess_get :: "'pos \<Rightarrow> string option \<Rightarrow> Piece option"
  chess_move :: "'pos \<Rightarrow> string option \<Rightarrow> string option \<Rightarrow> string option \<Rightarrow> 'pos move_attempt"
  chess_moveSan :: "'pos \<Rightarrow> string \<Rightarrow> 'pos option"
  chess_fen :: "'pos \<Rightarrow> string"
  chess_turn :: "'pos \<Rightarrow> side"
  chess_isCheckmate :: "'pos \<Rightarrow> bool"
  chess_inCheck :: "'pos \<Rightarrow> bool"

subsection \<open>The state\<close>

text \<open>
  \<open>clients\<close> is the \<^verbatim>\<open>Map\<close> in insertion order (the order \<^verbatim>\<open>forEach\<close> visits);
  \<open>openSockets\<close> lists the sockets whose \<^verbatim>\<open>readyState\<close> is \<^verbatim>\<open>OPEN\<close>; the three tables
  are in insertion order, each with the next value of its \<^verbatim>\<open>serial\<close> id; \<open>outbox\<close>
  records every call of \<^verbatim>\<open>ws.send\<close> as (socket, event).
\<close>

record state =
  clients :: "(ws \<times> ClientConnection) list"
  openSockets :: "ws list"
  rooms :: "Room list"
  games :: "Game list"
  chatMessages :: "ChatMessage list"
  roomSeq :: nat
  gameSeq :: nat
  chatSeq :: nat
  outbox :: "(ws \<times> event) list"

section \<open>JavaScript helpers\<close>

text \<open>Truthiness of an optional string: \<^verbatim>\<open>undefined\<close> and \<^verbatim>\<open>''\<close> are falsy.\<close>

definition truthy :: "string option \<Rightarrow> bool" where
  "truthy v = (case v of None \<Rightarrow> False | Some t \<Rightarrow> t \<noteq> [])"

text \<open>\<^verbatim>\<open>v || d\<close> on an optional string.\<close>

definition orElse :: "string option \<Rightarrow> string \<Rightarrow> string" where
  "orElse v d = (case v of None \<Rightarrow> d | Some t \<Rightarrow> if t = [] then d else t)"

text \<open>Truthiness of an optional number (\<^verbatim>\<open>room.player2Id\<close>, \<^verbatim>\<open>client.roomId\<close>): \<^verbatim>\<open>0\<close> is falsy.\<close>

definition truthyNum :: "nat option \<Rightarrow> bool" where
  "truthyNum v = (case v of None \<Rightarrow> False | Some n \<Rightarrow> n \<noteq> 0)"

text \<open>\<^verbatim>\<open>s.substring(a, b)\<close>: both indices are clamped to the length and swapped if needed.\<close>

definition substring :: "string \<Rightarrow> nat \<Rightarrow> nat \<Rightarrow> string" where
  "substring s a b =
     (let a' = min a (length s); b' = min b (length s);
          lo = min a' b'; hi = max a' b'
      in take (hi - lo) (drop lo s))"

text \<open>\<^verbatim>\<open>toUpperCase\<close> on ASCII text: the 26 lower-case letters change, nothing else does.\<close>

definition upperChar :: "char \<Rightarrow> char" where
  "upperChar c =
     (case map_of (zip ''abcdefghijklmnopqrstuvwxyz'' ''ABCDEFGHIJKLMNOPQRSTUVWXYZ'') c of
        None \<Rightarrow> c
      | Some u \<Rightarrow> u)"

definition toUpperCase :: "string \<Rightarrow> string" where
  "toUpperCase s = map upperChar s"

text \<open>
  \<^verbatim>\<open>Math.random().toString(36).substring(2, 8).toUpperCase()\<close>. The random number and its
  base-36 rendering are floating point; the rendering \<open>rnd\<close> is the parameter. For
  \<^verbatim>\<open>Math.random() = 0.5\<close> it is \<^verbatim>\<open>"0.i"\<close>, for \<^verbatim>\<open>0\<close> it is \<^verbatim>\<open>"0"\<close>.
\<close>

definition generateRoomCode :: "string \<Rightarrow> string" where
  "generateRoomCode rnd = toUpperCase (substring rnd 2 8)"

section \<open>Sockets\<close>

definition clients_get :: "state \<Rightarrow> ws \<Rightarrow> ClientConnection option" where
  "clients_get s ws = map_of (clients s) ws"

text \<open>The handlers assign to the fields of the object stored in the map: its place is kept.\<close>

definition setClient :: "ws \<Rightarrow> ClientConnection \<Rightarrow> state \<Rightarrow> state" where
  "setClient ws c s =
     s\<lparr>clients := map (\<lambda>(w, c0). if w = ws then (w, c) else (w, c0)) (clients s)\<rparr>"

definition send :: "ws \<Rightarrow> event \<Rightarrow> state \<Rightarrow> state" where
  "send ws ev s = s\<lparr>outbox := outbox s @ [(ws, ev)]\<rparr>"

definition recipients :: "nat \<Rightarrow> ws option \<Rightarrow> state \<Rightarrow> ws list" where
  "recipients rid exclude s =
     map fst (filter (\<lambda>(w, c). roomId c = Some rid \<and> Some w \<noteq> exclude \<and> w \<in> set (openSockets s))
                     (clients s))"

definition broadcastToRoom :: "nat \<Rightarrow> event \<Rightarrow> ws option \<Rightarrow> state \<Rightarrow> state" where
  "broadcastToRoom rid ev exclude s =
     s\<lparr>outbox := outbox s @ map (\<lambda>w. (w, ev)) (recipients rid exclude s)\<rparr>"

section \<open>Storage\<close>

text \<open>
  \<^verbatim>\<open>DatabaseStorage\<close> over the tables of the schema. The schema's constraints are part of
  the model: \<^verbatim>\<open>rooms.code\<close> is \<^verbatim>\<open>unique()\<close> and \<^verbatim>\<open>chat_messages.message\<close> is
  \<^verbatim>\<open>notNull()\<close>, so an insert that violates one throws (\<open>None\<close>) and adds no row; the
  serial id it drew is spent. A database that cannot be reached is not modelled.

  The columns \<^verbatim>\<open>code\<close>, \<^verbatim>\<open>player_name\<close> and \<^verbatim>\<open>message\<close> are \<^verbatim>\<open>text\<close>. A text sent
  by a client can hold the character U+0000, which no value of that type can: the database
  refuses the parameter and the query throws before it runs. The texts the server makes
  itself (the rendering of a number, the FEN and SAN of the chess library) do not hold it.
\<close>

definition dbAccepts :: "string \<Rightarrow> bool" where
  "dbAccepts t = (CHR 0x00 \<notin> set t)"

text \<open>The outcome of a query: it throws, or it returns.\<close>

datatype 'a dbresult = DbError | DbOk 'a

definition createRoom :: "string \<Rightarrow> state \<Rightarrow> Room option \<times> state" where
  "createRoom code s =
     (let s' = s\<lparr>roomSeq := Suc (roomSeq s)\<rparr> in
      if code \<in> set (map room_code (rooms s)) then (None, s')
      else
        (let room = \<lparr>room_id = roomSeq s, room_code = code, player1Id = None,
                     player2Id = None, isActive = True\<rparr>
         in (Some room, s'\<lparr>rooms := rooms s @ [room]\<rparr>)))"

text \<open>
  \<^verbatim>\<open>getRoomByCode\<close>: the first row with the code. A code that is \<^verbatim>\<open>undefined\<close> reaches
  the database as NULL and equals no row; a value that is no string reaches it as the text
  the driver renders, and is modelled as that text.
\<close>

definition getRoomByCode :: "string option \<Rightarrow> state \<Rightarrow> Room option dbresult" where
  "getRoomByCode code s =
     (case code of
        None \<Rightarrow> DbOk None
      | Some c \<Rightarrow>
          if \<not> dbAccepts c then DbError
          else DbOk (find (\<lambda>r. room_code r = c) (rooms s)))"

definition updateRoom :: "nat \<Rightarrow> (Room \<Rightarrow> Room) \<Rightarrow> state \<Rightarrow> state" where
  "updateRoom rid f s = s\<lparr>rooms := map (\<lambda>r. if room_id r = rid then f r else r) (rooms s)\<rparr>"

definition createGame ::
  "nat \<Rightarrow> color \<Rightarrow> string \<Rightarrow> string list \<Rightarrow> status \<Rightarrow> state \<Rightarrow> Game \<times> state" where
  "createGame rid turn fen history st s =
     (let game = \<lparr>game_id = gameSeq s, game_roomId = rid, currentTurn = turn,
                  boardState = fen, moveHistory = history, status = st, winner = None\<rparr>
      in (game, s\<lparr>games := games s @ [game], gameSeq := Suc (gameSeq s)\<rparr>))"

definition getGameByRoomId :: "nat \<Rightarrow> state \<Rightarrow> Game option" where
  "getGameByRoomId rid s = find (\<lambda>g. game_roomId g = rid) (games s)"

definition updateGame :: "nat \<Rightarrow> (Game \<Rightarrow> Game) \<Rightarrow> state \<Rightarrow> state" where
  "updateGame gid f s = s\<lparr>games := map (\<lambda>g. if game_id g = gid then f g else g) (games s)\<rparr>"

text \<open>The value of the column \<^verbatim>\<open>message\<close> for a payload: NULL, or a text.\<close>

definition payloadText :: "payload \<Rightarrow> string option" where
  "payloadText p = (case p of Absent \<Rightarrow> None | Str t \<Rightarrow> Some t | NonString r \<Rightarrow> Some r)"

text \<open>
  \<^verbatim>\<open>addChatMessage\<close>: the insert throws when the name or the text is refused as a
  parameter (no id is drawn), and when the text is NULL (the id drawn is spent).
\<close>

definition addChatMessage ::
  "nat \<Rightarrow> nat option \<Rightarrow> string \<Rightarrow> payload \<Rightarrow> state \<Rightarrow> ChatMessage option \<times> state" where
  "addChatMessage rid pid pname p s =
     (if \<not> dbAccepts pname then (None, s)
      else
        (case payloadText p of
           None \<Rightarrow> (None, s\<lparr>chatSeq := Suc (chatSeq s)\<rparr>)
         | Some t \<Rightarrow>
             if \<not> dbAccepts t then (None, s)
             else
               (let row = \<lparr>chat_id = chatSeq s, chat_roomId = rid, chat_playerId = pid,
                           chat_playerName = pname, chat_message = t\<rparr>
                in (Some row,
                    s\<lparr>chatSeq := Suc (chatSeq s), chatMessages := chatMessages s @ [row]\<rparr>))))"

definition getChatMessages :: "nat \<Rightarrow> state \<Rightarrow> ChatMessage list" where
  "getChatMessages rid s = filter (\<lambda>m. chat_roomId m = rid) (chatMessages s)"

section \<open>Handlers\<close>

text \<open>\<^verbatim>\<open>wss.on('connection')\<close>: the socket gets a fresh, unbound entry and is greeted.\<close>

definition newClient :: ClientConnection where
  "newClient = \<lparr>roomId = None, playerId = None, playerName = None, color = None\<rparr>"

definition onConnection :: "ws \<Rightarrow> state \<Rightarrow> state" where
  "onConnection ws s =
     (let s1 = (if ws \<in> set (map fst (clients s)) then setClient ws newClient s
                else s\<lparr>clients := clients s @ [(ws, newClient)]\<rparr>);
          s2 = s1\<lparr>openSockets := ws # openSockets s1\<rparr>
      in send ws Connected s2)"

text \<open>\<^verbatim>\<open>ws.on('close')\<close> and \<^verbatim>\<open>ws.on('error')\<close>: the entry is deleted.\<close>

definition onClose :: "ws \<Rightarrow> state \<Rightarrow> state" where
  "onClose ws s =
     s\<lparr>clients := filter (\<lambda>(w, c). w \<noteq> ws) (clients s),
       openSockets := removeAll ws (openSockets s)\<rparr>"

text \<open>
  \<^verbatim>\<open>handleCreateRoom\<close>. \<open>rnd\<close> is the rendering of the one random number the handler draws.
  The only statement of the \<^verbatim>\<open>try\<close> block that throws is \<^verbatim>\<open>storage.createRoom\<close>.
\<close>

definition handleCreateRoom :: "'pos Chess \<Rightarrow> string \<Rightarrow> ws \<Rightarrow> message \<Rightarrow> state \<Rightarrow> state" where
  "handleCreateRoom chess rnd ws message s =
     (let code = generateRoomCode rnd in
      case createRoom code s of
        (None, s1) \<Rightarrow> send ws (Error ''Failed to create room'') s1
      | (Some room, s1) \<Rightarrow>
          (let fen0 = chess_fen chess (chess_new chess);
               s2 = snd (createGame (room_id room) White fen0 [] Waiting s1);
               s3 = (case clients_get s2 ws of
                       None \<Rightarrow> s2
                     | Some client \<Rightarrow>
                         setClient ws
                           (client\<lparr>roomId := Some (room_id room), playerId := Some 1,
                                   playerName := Some (orElse (msg_playerName message) ''Player 1''),
                                   color := Some White\<rparr>) s2);
               s4 = updateRoom (room_id room) (\<lambda>r. r\<lparr>player1Id := Some 1\<rparr>) s3
           in send ws
                (RoomCreated code (room_id room) White
                   \<lparr>gs_fen = fen0, gs_currentTurn = White, gs_moveHistory = [],
                    gs_status = Waiting\<rparr>) s4))"

text \<open>
  \<^verbatim>\<open>handleJoinRoom\<close>. The statement of its \<^verbatim>\<open>try\<close> block that throws is
  \<^verbatim>\<open>storage.getRoomByCode\<close>, the one query that carries a text of the client; the
  \<^verbatim>\<open>catch\<close> replies \<^verbatim>\<open>'Failed to join room'\<close>.
\<close>

definition handleJoinRoom :: "ws \<Rightarrow> message \<Rightarrow> state \<Rightarrow> state" where
  "handleJoinRoom ws message s =
     (case getRoomByCode (msg_roomCode message) s of
        DbError \<Rightarrow> send ws (Error ''Failed to join room'') s
      | DbOk None \<Rightarrow> send ws (Error ''Room not found'') s
      | DbOk (Some room) \<Rightarrow>
          if truthyNum (player2Id room) then send ws (Error ''Room is full'') s
          else
            (let s1 = updateRoom (room_id room) (\<lambda>r. r\<lparr>player2Id := Some 2\<rparr>) s;
                 s2 = (case clients_get s1 ws of
                         None \<Rightarrow> s1
                       | Some client \<Rightarrow>
                           setClient ws
                             (client\<lparr>roomId := Some (room_id room), playerId := Some 2,
                                     playerName := Some (orElse (msg_playerName message) ''Player 2''),
                                     color := Some Black\<rparr>) s1)
             in case getGameByRoomId (room_id room) s2 of
                  None \<Rightarrow> send ws (Error ''Game not found'') s2
                | Some game \<Rightarrow>
                    (let s3 = updateGame (game_id game) (\<lambda>g. g\<lparr>status := Active\<rparr>) s2;
                         view = \<lparr>gs_fen = boardState game, gs_currentTurn = currentTurn game,
                                 gs_moveHistory = moveHistory game, gs_status = Active\<rparr>;
                         s4 = send ws
                                (RoomJoined (room_code room) (room_id room) Black view
                                   (getChatMessages (room_id room) s3)) s3
                     in broadcastToRoom (room_id room) (GameStarted view) None s4)))"

text \<open>
  The inner \<^verbatim>\<open>try\<close>/\<^verbatim>\<open>catch\<close> of \<^verbatim>\<open>handleMakeMove\<close> and the test \<^verbatim>\<open>!move\<close> after it:
  \<open>None\<close> is the reply \<^verbatim>\<open>'Invalid move'\<close>. The first call passes \<^verbatim>\<open>from\<close> and \<^verbatim>\<open>to\<close> only.
\<close>

definition attemptMove :: "'pos Chess \<Rightarrow> 'pos \<Rightarrow> message \<Rightarrow> (Move \<times> 'pos) option" where
  "attemptMove chess pos message =
     (case chess_move chess pos (msg_from message) (msg_to message) None of
        MoveOk move pos' \<Rightarrow> Some (move, pos')
      | MoveNull \<Rightarrow> None
      | MoveThrows \<Rightarrow>
          if truthy (msg_promotion message) then
            (case chess_move chess pos (msg_from message) (msg_to message) (msg_promotion message) of
               MoveOk move pos' \<Rightarrow> Some (move, pos')
             | MoveNull \<Rightarrow> None
             | MoveThrows \<Rightarrow> None)
          else None)"

definition turnColor :: "side \<Rightarrow> color" where
  "turnColor t = (if t = W then White else Black)"

definition expectedColor :: "color \<Rightarrow> side" where
  "expectedColor c = (if c = White then W else B)"

text \<open>
  \<^verbatim>\<open>handleMakeMove\<close>. \<^verbatim>\<open>new Chess(game.boardState)\<close> throws on a string that is no FEN: the
  outer \<^verbatim>\<open>catch\<close> replies \<^verbatim>\<open>'Failed to make move'\<close>.
\<close>

definition handleMakeMove :: "'pos Chess \<Rightarrow> ws \<Rightarrow> message \<Rightarrow> state \<Rightarrow> state" where
  "handleMakeMove chess ws message s =
     (case clients_get s ws of
        None \<Rightarrow> send ws (Error ''Not in a room'') s
      | Some client \<Rightarrow>
          if \<not> truthyNum (roomId client) then send ws (Error ''Not in a room'') s
          else
            (case getGameByRoomId (the (roomId client)) s of
               None \<Rightarrow> send ws (Error ''Game not found'') s
             | Some game \<Rightarrow>
                 if status game \<noteq> Active then send ws (Error ''Game is not active'') s
                 else if color client \<noteq> Some (currentTurn game) then
                   send ws (Error ''Not your turn'') s
                 else
                   (case chess_load chess (boardState game) of
                      None \<Rightarrow> send ws (Error ''Failed to make move'') s
                    | Some pos \<Rightarrow>
                        (case chess_get chess pos (msg_from message) of
                           None \<Rightarrow> send ws (Error ''No piece at source square'') s
                         | Some piece \<Rightarrow>
                             if piece_color piece \<noteq> expectedColor (currentTurn game) then
                               send ws (Error ''Cannot move opponent's piece'') s
                             else
                               (case attemptMove chess pos message of
                                  None \<Rightarrow> send ws (Error ''Invalid move'') s
                                | Some (move, pos') \<Rightarrow>
                                    (let newMoveHistory = moveHistory game @ [move_san move];
                                         nextTurn = turnColor (chess_turn chess pos');
                                         mate = chess_isCheckmate chess pos';
                                         gameStatus = (if mate then Checkmate else Active);
                                         win = (if mate then Some (currentTurn game) else None);
                                         s1 = updateGame (game_id game)
                                                (\<lambda>g. g\<lparr>boardState := chess_fen chess pos',
                                                        currentTurn := nextTurn,
                                                        moveHistory := newMoveHistory,
                                                        status := gameStatus,
                                                        winner := win\<rparr>) s
                                     in broadcastToRoom (the (roomId client))
                                          (MoveMade
                                             \<lparr>mv_from = msg_from message, mv_to = msg_to message,
                                              mv_promotion = msg_promotion message,
                                              mv_san = move_san move, mv_piece = move_piece move,
                                              mv_captured = move_captured move\<rparr>
                                             \<lparr>gs_fen = chess_fen chess pos',
                                              gs_currentTurn = nextTurn,
                                              gs_moveHistory = newMoveHistory,
                                              gs_status = gameStatus, gs_winner = win,
                                              gs_check = chess_inCheck chess pos',
                                              gs_checkmate = mate, gs_draw = False,
                                              gs_stalemate = False,
                                              gs_turn = chess_turn chess pos',
                                              gs_gameOver = (gameStatus \<noteq> Active)\<rparr>)
                                          None s1))))))"

text \<open>
  \<^verbatim>\<open>handleSendChat\<close>. \<^verbatim>\<open>storage.addChatMessage\<close> throws when the row violates the schema;
  the \<^verbatim>\<open>catch\<close> replies \<^verbatim>\<open>'Failed to send chat message'\<close>.
\<close>

definition handleSendChat :: "ws \<Rightarrow> message \<Rightarrow> state \<Rightarrow> state" where
  "handleSendChat ws message s =
     (case clients_get s ws of
        None \<Rightarrow> send ws (Error ''Not in a room'') s
      | Some client \<Rightarrow>
          if \<not> truthyNum (roomId client) then send ws (Error ''Not in a room'') s
          else
            (case addChatMessage (the (roomId client))
                    (if truthyNum (playerId client) then playerId client else None)
                    (orElse (playerName client) ''Anonymous'') (msg_message message) s of
               (None, s1) \<Rightarrow> send ws (Error ''Failed to send chat message'') s1
             | (Some chatMessage, s1) \<Rightarrow>
                 broadcastToRoom (the (roomId client))
                   (ChatMessageEvent (chat_id chatMessage) (chat_playerName chatMessage)
                      (chat_message chatMessage))
                   None s1))"

definition opposite :: "color option \<Rightarrow> color" where
  "opposite c = (if c = Some White then Black else White)"

text \<open>\<^verbatim>\<open>handleResign\<close>: the game of the room is set to \<^verbatim>\<open>'resigned'\<close> whatever its status.\<close>

definition handleResign :: "ws \<Rightarrow> state \<Rightarrow> state" where
  "handleResign ws s =
     (case clients_get s ws of
        None \<Rightarrow> send ws (Error ''Not in a room'') s
      | Some client \<Rightarrow>
          if \<not> truthyNum (roomId client) then send ws (Error ''Not in a room'') s
          else
            (case getGameByRoomId (the (roomId client)) s of
               None \<Rightarrow> send ws (Error ''Game not found'') s
             | Some game \<Rightarrow>
                 (let win = opposite (color client);
                      s1 = updateGame (game_id game)
                             (\<lambda>g. g\<lparr>status := Resigned, winner := Some win\<rparr>) s
                  in broadcastToRoom (the (roomId client)) (GameEnded win (color client))
                       None s1)))"

definition handleOfferDraw :: "ws \<Rightarrow> state \<Rightarrow> state" where
  "handleOfferDraw ws s =
     (case clients_get s ws of
        None \<Rightarrow> send ws (Error ''Not in a room'') s
      | Some client \<Rightarrow>
          if \<not> truthyNum (roomId client) then send ws (Error ''Not in a room'') s
          else broadcastToRoom (the (roomId client)) (DrawOffered (color client)) (Some ws) s)"

text \<open>\<^verbatim>\<open>handleWebSocketMessage\<close>: a \<^verbatim>\<open>switch\<close> with six cases and no \<^verbatim>\<open>default\<close>.\<close>

definition handleWebSocketMessage ::
  "'pos Chess \<Rightarrow> string \<Rightarrow> ws \<Rightarrow> message \<Rightarrow> state \<Rightarrow> state" where
  "handleWebSocketMessage chess rnd ws message s =
     (case clients_get s ws of
        None \<Rightarrow> s
      | Some client \<Rightarrow>
          if msg_type message = Some ''create_room'' then handleCreateRoom chess rnd ws message s
          else if msg_type message = Some ''join_room'' then handleJoinRoom ws message s
          else if msg_type message = Some ''make_move'' then handleMakeMove chess ws message s
          else if msg_type message = Some ''send_chat'' then handleSendChat ws message s
          else if msg_type message = Some ''resign'' then handleResign ws s
          else if msg_type message = Some ''offer_draw'' then handleOfferDraw ws s
          else s)"

text \<open>
  \<^verbatim>\<open>ws.on('message')\<close>: when \<^verbatim>\<open>JSON.parse\<close> or the reading of \<^verbatim>\<open>message.type\<close>
  throws, the \<^verbatim>\<open>catch\<close> replies \<^verbatim>\<open>'Invalid message format'\<close> if the socket is open.
\<close>

definition onMessage :: "'pos Chess \<Rightarrow> string \<Rightarrow> ws \<Rightarrow> frame \<Rightarrow> state \<Rightarrow> state" where
  "onMessage chess rnd ws fr s =
     (case fr of
        Unparseable \<Rightarrow>
          if ws \<in> set (openSockets s) then send ws (Error ''Invalid message format'') s else s
      | ParsedNull \<Rightarrow>
          if ws \<in> set (openSockets s) then send ws (Error ''Invalid message format'') s else s
      | Parsed message \<Rightarrow> handleWebSocketMessage chess rnd ws message s)"

section \<open>The server as a transition system\<close>

text \<open>
  What reaches the server: a socket connects, a socket closes, or a frame arrives on a
  socket (with the rendering of the random number a \<^verbatim>\<open>create_room\<close> would draw). The
  server starts with empty tables and no clients; \<^verbatim>\<open>serial\<close> ids start at 1.
\<close>

datatype input = Connect ws | Disconnect ws | Frame ws frame string

definition initialState :: state where
  "initialState =
     \<lparr>clients = [], openSockets = [], rooms = [], games = [], chatMessages = [],
      roomSeq = 1, gameSeq = 1, chatSeq = 1, outbox = []\<rparr>"

definition step :: "'pos Chess \<Rightarrow> state \<Rightarrow> input \<Rightarrow> state" where
  "step chess s inp =
     (case inp of
        Connect ws \<Rightarrow> onConnection ws s
      | Disconnect ws \<Rightarrow> onClose ws s
      | Frame ws fr rnd \<Rightarrow> onMessage chess rnd ws fr s)"

definition run :: "'pos Chess \<Rightarrow> input list \<Rightarrow> state" where
  "run chess inps = foldl (step chess) initialState inps"

text \<open>Every session that is bound to a room has a name, and not the empty one.\<close>

definition namedSessions :: "state \<Rightarrow> bool" where
  "namedSessions s =
     list_all (\<lambda>(w, c). roomId c = None \<or> (case playerName c of None \<Rightarrow> False | Some n \<Rightarrow> n \<noteq> []))
       (clients s)"

section \<open>Notions of the specification\<close>

text \<open>
  The specification's replay of a move history: the moves, in standard notation, are
  played one after the other from the starting position through the chess library
  (\<^verbatim>\<open>chess.move(san)\<close>); the result is the FEN of the position reached, if every move
  was accepted.
\<close>

fun replayFrom :: "'pos Chess \<Rightarrow> 'pos \<Rightarrow> string list \<Rightarrow> 'pos option" where
  "replayFrom chess pos [] = Some pos"
| "replayFrom chess pos (san # sans) =
     (case chess_moveSan chess pos san of
        None \<Rightarrow> None
      | Some pos' \<Rightarrow> replayFrom chess pos' sans)"

definition replayFen :: "'pos Chess \<Rightarrow> string list \<Rightarrow> string option" where
  "replayFen chess sans = map_option (chess_fen chess) (replayFrom chess (chess_new chess) sans)"

text \<open>Every game of the table has the replay of its history as its board.\<close>

definition replayable :: "'pos Chess \<Rightarrow> state \<Rightarrow> bool" where
  "replayable chess s =
     list_all (\<lambda>g. replayFen chess (moveHistory g) = Some (boardState g)) (games s)"

text \<open>
  What the replay property needs of the library: a position is recovered from its FEN, and
  a move that was accepted as (from, to, promotion) is accepted again, with the same
  result, when given in the notation the library reported for it.
\<close>

definition coherentChess :: "'pos Chess \<Rightarrow> bool" where
  "coherentChess chess =
     ((\<forall>pos. chess_load chess (chess_fen chess pos) = Some pos) \<and>
      (\<forall>pos a b c move pos'.
          chess_move chess pos a b c = MoveOk move pos' \<longrightarrow>
          chess_moveSan chess pos (move_san move) = Some pos'))"

text \<open>The alphabet of a room code, \<^verbatim>\<open>[A-Z0-9]\<close>, and the digits of a base-36 rendering.\<close>

definition isUpperAlnum :: "char \<Rightarrow> bool" where
  "isUpperAlnum c = (c \<in> set ''ABCDEFGHIJKLMNOPQRSTUVWXYZ0123456789'')"

definition isBase36Digit :: "char \<Rightarrow> bool" where
  "isBase36Digit c = (c \<in> set ''0123456789abcdefghijklmnopqrstuvwxyz'')"

section \<open>Concrete inputs\<close>

text \<open>
  A small rules engine for running the handlers on concrete inputs: a position is the
  number of plies played and its FEN is that many \<^verbatim>\<open>x\<close>; White is to move after an
  even number of plies; White owns the pieces on e2 and a7, Black the one on e7; e2-e4 and
  e7-e5 are always legal, a7-a8 is legal with promotion to a queen only; the position after
  three plies is checkmate.
\<close>

definition toyChess :: "nat Chess" where
  "toyChess =
     \<lparr>chess_new = 0,
      chess_load = (\<lambda>f. Some (length f)),
      chess_get = (\<lambda>pos sq.
         if sq = Some ''e2'' \<or> sq = Some ''a7'' then Some \<lparr>piece_type = ''p'', piece_color = W\<rparr>
         else if sq = Some ''e7'' then Some \<lparr>piece_type = ''p'', piece_color = B\<rparr>
         else None),
      chess_move = (\<lambda>pos a b c.
         if a = Some ''e2'' \<and> b = Some ''e4'' then
           MoveOk \<lparr>move_san = ''e4'', move_piece = ''p'', move_captured = None\<rparr> (Suc pos)
         else if a = Some ''e7'' \<and> b = Some ''e5'' then
           MoveOk \<lparr>move_san = ''e5'', move_piece = ''p'', move_captured = None\<rparr> (Suc pos)
         else if a = Some ''a7'' \<and> b = Some ''a8'' \<and> c = Some ''q'' then
           MoveOk \<lparr>move_san = ''a8=Q'', move_piece = ''p'', move_captured = None\<rparr> (Suc pos)
         else MoveThrows),
      chess_moveSan = (\<lambda>pos san.
         if san = ''e4'' \<or> san = ''e5'' \<or> san = ''a8=Q'' then Some (Suc pos) else None),
      chess_fen = (\<lambda>pos. replicate pos (CHR ''x'')),
      chess_turn = (\<lambda>pos. if even pos then W else B),
      chess_isCheckmate = (\<lambda>pos. pos = 3),
      chess_inCheck = (\<lambda>pos. False)\<rparr>"

definition emptyMessage :: message where
  "emptyMessage =
     \<lparr>msg_type = None, msg_playerName = None, msg_roomCode = None, msg_from = None,
      msg_to = None, msg_promotion = None, msg_message = Absent\<rparr>"

text \<open>
  Room 1 (code \<^verbatim>\<open>AAAAAA\<close>) with socket 1 as White and socket 2 as Black and its game in
  play, two plies played, White to move; room 2 (code \<^verbatim>\<open>BBBBBB\<close>) created by socket 3 and
  waiting for its second player. All three sockets are open.
\<close>

definition exampleState :: state where
  "exampleState =
     \<lparr>clients =
        [(1, \<lparr>roomId = Some 1, playerId = Some 1, playerName = Some ''Ann'', color = Some White\<rparr>),
         (2, \<lparr>roomId = Some 1, playerId = Some 2, playerName = Some ''Bob'', color = Some Black\<rparr>),
         (3, \<lparr>roomId = Some 2, playerId = Some 1, playerName = Some ''Cy'', color = Some White\<rparr>)],
      openSockets = [1, 2, 3],
      rooms =
        [\<lparr>room_id = 1, room_code = ''AAAAAA'', player1Id = Some 1, player2Id = Some 2,
          isActive = True\<rparr>,
         \<lparr>room_id = 2, room_code = ''BBBBBB'', player1Id = Some 1, player2Id = None,
          isActive = True\<rparr>],
      games =
        [\<lparr>game_id = 1, game_roomId = 1, currentTurn = White, boardState = ''xx'',
          moveHistory = [''e4'', ''e5''], status = Active, winner = None\<rparr>,
         \<lparr>game_id = 2, game_roomId = 2, currentTurn = White, boardState = [],
          moveHistory = [], status = Waiting, winner = None\<rparr>],
      chatMessages = [],
      roomSeq = 3, gameSeq = 3, chatSeq = 1,
      outbox = []\<rparr>"

text \<open>The same, with the game of room 1 over: White has given checkmate.\<close>

definition matedState :: state where
  "matedState =
     exampleState\<lparr>games :=
        [\<lparr>game_id = 1, game_roomId = 1, currentTurn = Black, boardState = ''xxx'',
          moveHistory = [''e4'', ''e5'', ''e4''], status = Checkmate, winner = Some White\<rparr>,
         \<lparr>game_id = 2, game_roomId = 2, currentTurn = White, boardState = [],
          moveHistory = [], status = Waiting, winner = None\<rparr>]\<rparr>"

text \<open>The same as \<open>exampleState\<close> one ply earlier: White has played, Black is to move.\<close>

definition blackToMoveState :: state where
  "blackToMoveState =
     exampleState\<lparr>games :=
        [\<lparr>game_id = 1, game_roomId = 1, currentTurn = Black, boardState = ''x'',
          moveHistory = [''e4''], status = Active, winner = None\<rparr>,
         \<lparr>game_id = 2, game_roomId = 2, currentTurn = White, boardState = [],
          moveHistory = [], status = Waiting, winner = None\<rparr>]\<rparr>"

section \<open>Properties of the handlers\<close>

text \<open>What the storage and socket operations leave alone.\<close>

lemma clients_updateRoom [simp]: "clients (updateRoom rid f s) = clients s"
  by (simp add: updateRoom_def)

lemma clients_updateGame [simp]: "clients (updateGame gid f s) = clients s"
  by (simp add: updateGame_def)

lemma clients_send [simp]: "clients (send ws ev s) = clients s"
  by (simp add: send_def)

lemma clients_broadcastToRoom [simp]: "clients (broadcastToRoom rid ev ex s) = clients s"
  by (simp add: broadcastToRoom_def)

text \<open>
  Claim C1 (terminal states are immutable; a resign on a finished game is rejected and
  leaves status and winner unchanged). \<^verbatim>\<open>handleMakeMove\<close> does refuse a game that is not
  active (claim C2 below), but \<^verbatim>\<open>handleResign\<close>
  has no such test. Evaluated on the state in which White has given checkmate in room 1:
  when White then resigns, the game's status changes from checkmate to resigned, its winner
  from White to Black, and \<^verbatim>\<open>game_ended\<close> is broadcast to the room; no error is sent.
\<close>

theorem resign_after_checkmate_overwrites:
  "map_option (\<lambda>g. (status g, winner g)) (getGameByRoomId 1 matedState) = Some (Checkmate, Some White) \<and>
   map_option (\<lambda>g. (status g, winner g)) (getGameByRoomId 1 (handleResign 1 matedState))
     = Some (Resigned, Some Black) \<and>
   outbox (handleResign 1 matedState)
     = [(1, GameEnded Black (Some White)), (2, GameEnded Black (Some White))]"
  by (simp add: handleResign_def matedState_def exampleState_def clients_get_def truthyNum_def
      getGameByRoomId_def updateGame_def broadcastToRoom_def recipients_def opposite_def)

text \<open>
  Claim C2. A \<^verbatim>\<open>make_move\<close> from a socket bound to a room with a game fails in the order the
  handler tests: the game is not active; else the mover's colour is not the colour to
  move; else (the position loaded) the from-square is empty; else its piece is of the other
  side. Each time the state after is the state before with one more entry in the outbox,
  the specific error addressed to the sender: no broadcast, and rooms, games (board, history,
  turn, status, winner), chat and bindings are unchanged.
\<close>

theorem make_move_precondition_failures:
  assumes "clients_get s ws = Some client" and "roomId client = Some rid" and "rid \<noteq> 0"
    and "getGameByRoomId rid s = Some game"
  shows "(status game \<noteq> Active \<longrightarrow>
            handleMakeMove chess ws message s
              = s\<lparr>outbox := outbox s @ [(ws, Error ''Game is not active'')]\<rparr>) \<and>
         (status game = Active \<and> color client \<noteq> Some (currentTurn game) \<longrightarrow>
            handleMakeMove chess ws message s
              = s\<lparr>outbox := outbox s @ [(ws, Error ''Not your turn'')]\<rparr>) \<and>
         (\<forall>pos. status game = Active \<and> color client = Some (currentTurn game) \<and>
                chess_load chess (boardState game) = Some pos \<and>
                chess_get chess pos (msg_from message) = None \<longrightarrow>
            handleMakeMove chess ws message s
              = s\<lparr>outbox := outbox s @ [(ws, Error ''No piece at source square'')]\<rparr>) \<and>
         (\<forall>pos piece. status game = Active \<and> color client = Some (currentTurn game) \<and>
                chess_load chess (boardState game) = Some pos \<and>
                chess_get chess pos (msg_from message) = Some piece \<and>
                piece_color piece \<noteq> expectedColor (currentTurn game) \<longrightarrow>
            handleMakeMove chess ws message s
              = s\<lparr>outbox := outbox s @ [(ws, Error ''Cannot move opponent's piece'')]\<rparr>)"
  using assms by (simp add: handleMakeMove_def send_def truthyNum_def)

text \<open>The four failures of C2 on concrete inputs.\<close>

theorem make_move_precondition_failures_witness:
  "handleMakeMove toyChess 1 (emptyMessage\<lparr>msg_from := Some ''e2'', msg_to := Some ''e4''\<rparr>) matedState
     = matedState\<lparr>outbox := [(1, Error ''Game is not active'')]\<rparr> \<and>
   handleMakeMove toyChess 2 (emptyMessage\<lparr>msg_from := Some ''e7'', msg_to := Some ''e5''\<rparr>) exampleState
     = exampleState\<lparr>outbox := [(2, Error ''Not your turn'')]\<rparr> \<and>
   handleMakeMove toyChess 1 (emptyMessage\<lparr>msg_from := Some ''e5'', msg_to := Some ''e6''\<rparr>) exampleState
     = exampleState\<lparr>outbox := [(1, Error ''No piece at source square'')]\<rparr> \<and>
   handleMakeMove toyChess 1 (emptyMessage\<lparr>msg_from := Some ''e7'', msg_to := Some ''e5''\<rparr>) exampleState
     = exampleState\<lparr>outbox := [(1, Error ''Cannot move opponent's piece'')]\<rparr>"
proof -
  let ?ann = "\<lparr>roomId = Some 1, playerId = Some 1, playerName = Some ''Ann'', color = Some White\<rparr>"
  let ?bob = "\<lparr>roomId = Some 1, playerId = Some 2, playerName = Some ''Bob'', color = Some Black\<rparr>"
  let ?over = "\<lparr>game_id = 1, game_roomId = 1, currentTurn = Black, boardState = ''xxx'',
                moveHistory = [''e4'', ''e5'', ''e4''], status = Checkmate, winner = Some White\<rparr>"
  let ?play = "\<lparr>game_id = 1, game_roomId = 1, currentTurn = White, boardState = ''xx'',
                moveHistory = [''e4'', ''e5''], status = Active, winner = None\<rparr>"
  have ann: "clients_get exampleState 1 = Some ?ann" "clients_get matedState 1 = Some ?ann"
    and bob: "clients_get exampleState 2 = Some ?bob"
    by (simp_all add: clients_get_def exampleState_def matedState_def)
  have over: "getGameByRoomId 1 matedState = Some ?over"
    and play: "getGameByRoomId 1 exampleState = Some ?play"
    by (simp_all add: getGameByRoomId_def exampleState_def matedState_def)
  have out: "outbox exampleState = []" "outbox matedState = []"
    by (simp_all add: exampleState_def matedState_def)
  have a: "handleMakeMove toyChess 1 (emptyMessage\<lparr>msg_from := Some ''e2'', msg_to := Some ''e4''\<rparr>) matedState
     = matedState\<lparr>outbox := [(1, Error ''Game is not active'')]\<rparr>"
    using make_move_precondition_failures [where chess = toyChess, OF ann(2) _ _ over] out by simp
  have b: "handleMakeMove toyChess 2 (emptyMessage\<lparr>msg_from := Some ''e7'', msg_to := Some ''e5''\<rparr>) exampleState
     = exampleState\<lparr>outbox := [(2, Error ''Not your turn'')]\<rparr>"
    using make_move_precondition_failures [where chess = toyChess, OF bob _ _ play] out by simp
  have c: "handleMakeMove toyChess 1 (emptyMessage\<lparr>msg_from := Some ''e5'', msg_to := Some ''e6''\<rparr>) exampleState
     = exampleState\<lparr>outbox := [(1, Error ''No piece at source square'')]\<rparr>"
    using make_move_precondition_failures [where chess = toyChess
        and message = "emptyMessage\<lparr>msg_from := Some ''e5'', msg_to := Some ''e6''\<rparr>",
        OF ann(1) _ _ play] out
    by (simp add: toyChess_def emptyMessage_def)
  have d: "handleMakeMove toyChess 1 (emptyMessage\<lparr>msg_from := Some ''e7'', msg_to := Some ''e5''\<rparr>) exampleState
     = exampleState\<lparr>outbox := [(1, Error ''Cannot move opponent's piece'')]\<rparr>"
    using make_move_precondition_failures [where chess = toyChess
        and message = "emptyMessage\<lparr>msg_from := Some ''e7'', msg_to := Some ''e5''\<rparr>",
        OF ann(1) _ _ play] out
    by (simp add: toyChess_def emptyMessage_def expectedColor_def)
  from a b c d show ?thesis by simp
qed

text \<open>
  Claim C9. \<^verbatim>\<open>offer_draw\<close> from a socket bound to a room changes nothing but the outbox, to
  which it adds one \<^verbatim>\<open>draw_offered\<close> event for each recipient; the recipients are exactly
  the open sockets bound to the same room other than the sender.
\<close>

theorem offer_draw_broadcast_only:
  assumes "clients_get s ws = Some client" and "roomId client = Some rid" and "rid \<noteq> 0"
  shows "handleOfferDraw ws s
           = s\<lparr>outbox := outbox s @
                 map (\<lambda>w. (w, DrawOffered (color client))) (recipients rid (Some ws) s)\<rparr> \<and>
         set (recipients rid (Some ws) s)
           = {w. w \<noteq> ws \<and> w \<in> set (openSockets s) \<and>
                 (\<exists>c. (w, c) \<in> set (clients s) \<and> roomId c = Some rid)}"
  using assms
  by (auto simp add: handleOfferDraw_def broadcastToRoom_def truthyNum_def recipients_def image_iff)

text \<open>C9 on a concrete input: White of room 1 offers a draw, Black alone is told.\<close>

theorem offer_draw_broadcast_only_witness:
  "handleOfferDraw 1 exampleState = exampleState\<lparr>outbox := [(2, DrawOffered (Some White))]\<rparr> \<and>
   set (recipients 1 (Some 1) exampleState) = {2}"
proof -
  have ann: "clients_get exampleState 1
      = Some \<lparr>roomId = Some 1, playerId = Some 1, playerName = Some ''Ann'', color = Some White\<rparr>"
    by (simp add: clients_get_def exampleState_def)
  have rec: "recipients 1 (Some 1) exampleState = [2]"
    by (simp add: recipients_def exampleState_def)
  have out: "outbox exampleState = []"
    by (simp add: exampleState_def)
  show ?thesis
    using offer_draw_broadcast_only [OF ann] rec out by simp
qed

subsection \<open>Joining a room\<close>

text \<open>
  Claim C6 (\<^verbatim>\<open>join_room\<close> with a code matching no room fails with RoomNotFound). A code
  that holds U+0000 matches no room, but the lookup throws on it and the \<^verbatim>\<open>catch\<close> of
  \<^verbatim>\<open>handleJoinRoom\<close> replies \<^verbatim>\<open>'Failed to join room'\<close>, not \<^verbatim>\<open>'Room not found'\<close>.
\<close>

theorem refused_code_fails_to_join:
  "[CHR 0x00] \<notin> set (map room_code (rooms exampleState)) \<and>
   outbox (handleJoinRoom 3 (emptyMessage\<lparr>msg_roomCode := Some [CHR 0x00]\<rparr>) exampleState)
     = [(3, Error ''Failed to join room'')]"
  by (simp add: handleJoinRoom_def getRoomByCode_def dbAccepts_def emptyMessage_def
      exampleState_def send_def)

text \<open>
  Claim C6, amended. \<^verbatim>\<open>join_room\<close> with a code that the database accepts (no U+0000 in
  it) and that no room has, or with no code at all, replies \<^verbatim>\<open>'Room not found'\<close>; with a
  code the database refuses it replies \<^verbatim>\<open>'Failed to join room'\<close>; with the code of a room
  whose second seat is taken it replies \<^verbatim>\<open>'Room is full'\<close>. Each time the reply goes to the
  joiner alone and nothing else changes: the seats of the room, the binding of the joining
  socket and the game are as before.
\<close>

theorem join_room_failures:
  "(\<forall>c. msg_roomCode message = Some c \<and> CHR 0x00 \<notin> set c \<and>
        c \<notin> set (map room_code (rooms s)) \<longrightarrow>
      handleJoinRoom ws message s = s\<lparr>outbox := outbox s @ [(ws, Error ''Room not found'')]\<rparr>) \<and>
   (msg_roomCode message = None \<longrightarrow>
      handleJoinRoom ws message s = s\<lparr>outbox := outbox s @ [(ws, Error ''Room not found'')]\<rparr>) \<and>
   (\<forall>c. msg_roomCode message = Some c \<and> CHR 0x00 \<in> set c \<longrightarrow>
      handleJoinRoom ws message s
        = s\<lparr>outbox := outbox s @ [(ws, Error ''Failed to join room'')]\<rparr>) \<and>
   (\<forall>c room n. msg_roomCode message = Some c \<and> CHR 0x00 \<notin> set c \<and>
        find (\<lambda>r. room_code r = c) (rooms s) = Some room \<and>
        player2Id room = Some n \<and> n \<noteq> 0 \<longrightarrow>
      handleJoinRoom ws message s = s\<lparr>outbox := outbox s @ [(ws, Error ''Room is full'')]\<rparr>)"
proof (intro conjI allI impI)
  fix c
  assume a: "msg_roomCode message = Some c \<and> CHR 0x00 \<notin> set c \<and>
        c \<notin> set (map room_code (rooms s))"
  then have "find (\<lambda>r. room_code r = c) (rooms s) = None"
    by (auto simp add: find_None_iff)
  with a show "handleJoinRoom ws message s
      = s\<lparr>outbox := outbox s @ [(ws, Error ''Room not found'')]\<rparr>"
    by (simp add: handleJoinRoom_def getRoomByCode_def dbAccepts_def send_def)
next
  assume "msg_roomCode message = None"
  then show "handleJoinRoom ws message s
      = s\<lparr>outbox := outbox s @ [(ws, Error ''Room not found'')]\<rparr>"
    by (simp add: handleJoinRoom_def getRoomByCode_def send_def)
next
  fix c
  assume "msg_roomCode message = Some c \<and> CHR 0x00 \<in> set c"
  then show "handleJoinRoom ws message s
      = s\<lparr>outbox := outbox s @ [(ws, Error ''Failed to join room'')]\<rparr>"
    by (simp add: handleJoinRoom_def getRoomByCode_def dbAccepts_def send_def)
next
  fix c room n
  assume "msg_roomCode message = Some c \<and> CHR 0x00 \<notin> set c \<and>
        find (\<lambda>r. room_code r = c) (rooms s) = Some room \<and>
        player2Id room = Some n \<and> n \<noteq> 0"
  then show "handleJoinRoom ws message s
      = s\<lparr>outbox := outbox s @ [(ws, Error ''Room is full'')]\<rparr>"
    by (simp add: handleJoinRoom_def getRoomByCode_def dbAccepts_def truthyNum_def send_def)
qed

text \<open>The four failures of C6 as amended, on concrete inputs.\<close>

theorem join_room_failures_witness:
  "handleJoinRoom 3 (emptyMessage\<lparr>msg_roomCode := Some ''ZZZZZZ''\<rparr>) exampleState
     = exampleState\<lparr>outbox := [(3, Error ''Room not found'')]\<rparr> \<and>
   handleJoinRoom 3 emptyMessage exampleState
     = exampleState\<lparr>outbox := [(3, Error ''Room not found'')]\<rparr> \<and>
   handleJoinRoom 3 (emptyMessage\<lparr>msg_roomCode := Some [CHR 0x00]\<rparr>) exampleState
     = exampleState\<lparr>outbox := [(3, Error ''Failed to join room'')]\<rparr> \<and>
   handleJoinRoom 3 (emptyMessage\<lparr>msg_roomCode := Some ''AAAAAA''\<rparr>) exampleState
     = exampleState\<lparr>outbox := [(3, Error ''Room is full'')]\<rparr>"
proof -
  let ?z = "emptyMessage\<lparr>msg_roomCode := Some ''ZZZZZZ''\<rparr>"
  let ?n = "emptyMessage\<lparr>msg_roomCode := Some [CHR 0x00]\<rparr>"
  let ?a = "emptyMessage\<lparr>msg_roomCode := Some ''AAAAAA''\<rparr>"
  have codes: "msg_roomCode ?z = Some ''ZZZZZZ''" "msg_roomCode emptyMessage = None"
      "msg_roomCode ?n = Some [CHR 0x00]" "msg_roomCode ?a = Some ''AAAAAA''"
    by (simp_all add: emptyMessage_def)
  have st: "map room_code (rooms exampleState) = [''AAAAAA'', ''BBBBBB'']"
      "outbox exampleState = []"
      "find (\<lambda>r. room_code r = ''AAAAAA'') (rooms exampleState)
         = Some \<lparr>room_id = 1, room_code = ''AAAAAA'', player1Id = Some 1, player2Id = Some 2,
                  isActive = True\<rparr>"
    by (simp_all add: exampleState_def)
  have a: "handleJoinRoom 3 ?z exampleState
      = exampleState\<lparr>outbox := [(3, Error ''Room not found'')]\<rparr>"
    using join_room_failures [where message = ?z and s = exampleState and ws = 3] codes st
    by simp
  have b: "handleJoinRoom 3 emptyMessage exampleState
      = exampleState\<lparr>outbox := [(3, Error ''Room not found'')]\<rparr>"
    using join_room_failures [where message = emptyMessage and s = exampleState and ws = 3]
      codes st by simp
  have c: "handleJoinRoom 3 ?n exampleState
      = exampleState\<lparr>outbox := [(3, Error ''Failed to join room'')]\<rparr>"
    using join_room_failures [where message = ?n and s = exampleState and ws = 3] codes st
    by simp
  have d: "handleJoinRoom 3 ?a exampleState
      = exampleState\<lparr>outbox := [(3, Error ''Room is full'')]\<rparr>"
    using join_room_failures [where message = ?a and s = exampleState and ws = 3] codes st
    by simp
  from a b c d show ?thesis by simp
qed

subsection \<open>Frames the dispatcher does not know\<close>

text \<open>
  Claim C5 (an unreadable frame or an unrecognised type is answered with an error event to
  the sender, nothing is mutated, nothing broadcast). The dispatcher's \<^verbatim>\<open>switch\<close> has no
  \<^verbatim>\<open>default\<close>: a message of type \<^verbatim>\<open>ping\<close> from socket 1 is dropped, and no error event
  for socket 1 is in the outbox.
\<close>

theorem unknown_type_gets_no_reply:
  "\<not> (\<exists>reason. (1, Error reason) \<in> set (outbox
        (onMessage toyChess ''0.i'' 1 (Parsed (emptyMessage\<lparr>msg_type := Some ''ping''\<rparr>)) exampleState)))"
  by (simp add: onMessage_def handleWebSocketMessage_def emptyMessage_def clients_get_def
      exampleState_def)

text \<open>
  Claim C5, amended. A frame that \<^verbatim>\<open>JSON.parse\<close> rejects, and a frame that parses to
  \<^verbatim>\<open>null\<close>, are answered with \<^verbatim>\<open>'Invalid message format'\<close>, sent to the originating
  socket alone if it is open, and nothing else changes. Any other frame whose type is missing
  or none of the six recognised ones changes nothing at all: no event is sent, no error
  either.
\<close>

theorem unreadable_or_unknown_message:
  "onMessage chess rnd ws Unparseable s
     = (if ws \<in> set (openSockets s)
        then s\<lparr>outbox := outbox s @ [(ws, Error ''Invalid message format'')]\<rparr> else s) \<and>
   onMessage chess rnd ws ParsedNull s
     = (if ws \<in> set (openSockets s)
        then s\<lparr>outbox := outbox s @ [(ws, Error ''Invalid message format'')]\<rparr> else s) \<and>
   (\<forall>t. msg_type message = Some t \<and>
        t \<notin> {''create_room'', ''join_room'', ''make_move'', ''send_chat'', ''resign'',
              ''offer_draw''} \<longrightarrow>
      onMessage chess rnd ws (Parsed message) s = s) \<and>
   (msg_type message = None \<longrightarrow> onMessage chess rnd ws (Parsed message) s = s)"
  by (auto simp add: onMessage_def handleWebSocketMessage_def send_def split: option.splits)

text \<open>C5 as amended, on concrete inputs.\<close>

theorem unreadable_or_unknown_message_witness:
  "onMessage toyChess ''0.i'' 1 Unparseable exampleState
     = exampleState\<lparr>outbox := [(1, Error ''Invalid message format'')]\<rparr> \<and>
   onMessage toyChess ''0.i'' 1 ParsedNull exampleState
     = exampleState\<lparr>outbox := [(1, Error ''Invalid message format'')]\<rparr> \<and>
   onMessage toyChess ''0.i'' 1 (Parsed (emptyMessage\<lparr>msg_type := Some ''ping''\<rparr>)) exampleState
     = exampleState \<and>
   onMessage toyChess ''0.i'' 1 (Parsed emptyMessage) exampleState = exampleState"
proof -
  have op: "1 \<in> set (openSockets exampleState)" and out: "outbox exampleState = []"
    by (simp_all add: exampleState_def)
  have ty: "msg_type (emptyMessage\<lparr>msg_type := Some ''ping''\<rparr>) = Some ''ping''"
      "msg_type emptyMessage = None"
    by (simp_all add: emptyMessage_def)
  show ?thesis
    using unreadable_or_unknown_message [where chess = toyChess and rnd = "''0.i''" and ws = 1
        and s = exampleState and message = "emptyMessage\<lparr>msg_type := Some ''ping''\<rparr>"]
      unreadable_or_unknown_message [where chess = toyChess and rnd = "''0.i''" and ws = 1
        and s = exampleState and message = emptyMessage]
      op out ty by simp
qed

subsection \<open>Bindings of sockets\<close>

lemma clients_get_setClient:
  "clients_get s ws = Some c0 \<Longrightarrow> clients_get (setClient ws c s) ws = Some c"
proof -
  have "map_of xs ws = Some c0 \<Longrightarrow>
        map_of (map (\<lambda>(w, c0). if w = ws then (w, c) else (w, c0)) xs) ws = Some c" for xs
    by (induction xs) (auto split: if_splits)
  then show "clients_get s ws = Some c0 \<Longrightarrow> clients_get (setClient ws c s) ws = Some c"
    by (simp add: clients_get_def setClient_def)
qed

text \<open>
  Claim C8 (a socket bound to a room cannot be bound to another one: such a
  \<^verbatim>\<open>create_room\<close> or \<^verbatim>\<open>join_room\<close> is rejected). Neither handler looks at the binding
  the socket has. Socket 1, bound to room 1, joins room 2 and is bound to room 2; or it
  creates a room and is bound to the new room 3; no error is sent to it either time.
\<close>

theorem bound_socket_rebinds:
  "map_option roomId (clients_get exampleState 1) = Some (Some 1) \<and>
   map_option roomId
     (clients_get (handleJoinRoom 1 (emptyMessage\<lparr>msg_roomCode := Some ''BBBBBB''\<rparr>) exampleState) 1)
     = Some (Some 2) \<and>
   \<not> (\<exists>reason. (1, Error reason) \<in> set (outbox
        (handleJoinRoom 1 (emptyMessage\<lparr>msg_roomCode := Some ''BBBBBB''\<rparr>) exampleState))) \<and>
   map_option roomId
     (clients_get (handleCreateRoom toyChess ''0.i'' 1 emptyMessage exampleState) 1)
     = Some (Some 3) \<and>
   \<not> (\<exists>reason. (1, Error reason) \<in> set (outbox
        (handleCreateRoom toyChess ''0.i'' 1 emptyMessage exampleState)))"
  by (simp add: handleJoinRoom_def handleCreateRoom_def exampleState_def emptyMessage_def
      getRoomByCode_def dbAccepts_def truthyNum_def updateRoom_def clients_get_def setClient_def
      getGameByRoomId_def updateGame_def send_def broadcastToRoom_def recipients_def
      createRoom_def createGame_def generateRoomCode_def substring_def toUpperCase_def
      upperChar_def orElse_def getChatMessages_def toyChess_def Let_def)

text \<open>
  Claim C8, amended. \<^verbatim>\<open>create_room\<close> and \<^verbatim>\<open>join_room\<close> do not test whether the socket
  is bound already. Whatever its binding was: when \<^verbatim>\<open>join_room\<close> finds the room with its
  second seat free, the socket is bound to that room as seat 2, Black; when
  \<^verbatim>\<open>create_room\<close> draws a code no room has, the socket is bound to the new room as seat
  1, White. The binding stays as it was only when the request fails: no room with the code,
  the lookup of the code throws, second seat taken, or the code drawn is in use.
\<close>

theorem rebinding_overwrites:
  assumes "clients_get s ws = Some client"
  shows "(\<forall>room. getRoomByCode (msg_roomCode message) s = DbOk (Some room) \<and>
                \<not> truthyNum (player2Id room) \<longrightarrow>
            clients_get (handleJoinRoom ws message s) ws
              = Some (client\<lparr>roomId := Some (room_id room), playerId := Some 2,
                              playerName := Some (orElse (msg_playerName message) ''Player 2''),
                              color := Some Black\<rparr>)) \<and>
         (generateRoomCode rnd \<notin> set (map room_code (rooms s)) \<longrightarrow>
            clients_get (handleCreateRoom chess rnd ws message s) ws
              = Some (client\<lparr>roomId := Some (roomSeq s), playerId := Some 1,
                              playerName := Some (orElse (msg_playerName message) ''Player 1''),
                              color := Some White\<rparr>)) \<and>
         (getRoomByCode (msg_roomCode message) s = DbOk None \<longrightarrow>
            clients_get (handleJoinRoom ws message s) ws = Some client) \<and>
         (getRoomByCode (msg_roomCode message) s = DbError \<longrightarrow>
            clients_get (handleJoinRoom ws message s) ws = Some client) \<and>
         (\<forall>room. getRoomByCode (msg_roomCode message) s = DbOk (Some room) \<and>
                truthyNum (player2Id room) \<longrightarrow>
            clients_get (handleJoinRoom ws message s) ws = Some client) \<and>
         (generateRoomCode rnd \<in> set (map room_code (rooms s)) \<longrightarrow>
            clients_get (handleCreateRoom chess rnd ws message s) ws = Some client)"
proof (intro conjI allI impI)
  fix room
  assume r: "getRoomByCode (msg_roomCode message) s = DbOk (Some room) \<and>
                \<not> truthyNum (player2Id room)"
  let ?s1 = "updateRoom (room_id room) (\<lambda>r. r\<lparr>player2Id := Some 2\<rparr>) s"
  let ?c = "client\<lparr>roomId := Some (room_id room), playerId := Some 2,
                   playerName := Some (orElse (msg_playerName message) ''Player 2''),
                   color := Some Black\<rparr>"
  have g1: "clients_get ?s1 ws = Some client"
    using assms by (simp add: clients_get_def)
  have g2: "clients_get (setClient ws ?c ?s1) ws = Some ?c"
    by (rule clients_get_setClient [OF g1])
  have "clients (handleJoinRoom ws message s) = clients (setClient ws ?c ?s1)"
    using r g1 by (simp add: handleJoinRoom_def Let_def split: option.splits)
  then show "clients_get (handleJoinRoom ws message s) ws = Some ?c"
    using g2 by (simp add: clients_get_def)
next
  assume fresh: "generateRoomCode rnd \<notin> set (map room_code (rooms s))"
  let ?c = "client\<lparr>roomId := Some (roomSeq s), playerId := Some 1,
                   playerName := Some (orElse (msg_playerName message) ''Player 1''),
                   color := Some White\<rparr>"
  have "clients (handleCreateRoom chess rnd ws message s) = clients (setClient ws ?c s)"
    using fresh assms
    by (simp add: handleCreateRoom_def createRoom_def createGame_def Let_def clients_get_def
        setClient_def updateRoom_def send_def)
  then show "clients_get (handleCreateRoom chess rnd ws message s) ws = Some ?c"
    using clients_get_setClient [OF assms, of ?c] by (simp add: clients_get_def)
next
  assume "getRoomByCode (msg_roomCode message) s = DbOk None"
  then show "clients_get (handleJoinRoom ws message s) ws = Some client"
    using assms by (simp add: handleJoinRoom_def clients_get_def)
next
  assume "getRoomByCode (msg_roomCode message) s = DbError"
  then show "clients_get (handleJoinRoom ws message s) ws = Some client"
    using assms by (simp add: handleJoinRoom_def clients_get_def)
next
  fix room
  assume "getRoomByCode (msg_roomCode message) s = DbOk (Some room) \<and>
                truthyNum (player2Id room)"
  then show "clients_get (handleJoinRoom ws message s) ws = Some client"
    using assms by (simp add: handleJoinRoom_def clients_get_def)
next
  assume "generateRoomCode rnd \<in> set (map room_code (rooms s))"
  then show "clients_get (handleCreateRoom chess rnd ws message s) ws = Some client"
    using assms by (simp add: handleCreateRoom_def createRoom_def clients_get_def Let_def)
qed

text \<open>C8 as amended, on concrete inputs: socket 1 of room 1 joins or creates.\<close>

theorem rebinding_overwrites_witness:
  "clients_get (handleJoinRoom 1 (emptyMessage\<lparr>msg_roomCode := Some ''BBBBBB''\<rparr>) exampleState) 1
     = Some \<lparr>roomId = Some 2, playerId = Some 2, playerName = Some ''Player 2'',
              color = Some Black\<rparr> \<and>
   clients_get (handleCreateRoom toyChess ''0.i'' 1 emptyMessage exampleState) 1
     = Some \<lparr>roomId = Some 3, playerId = Some 1, playerName = Some ''Player 1'',
              color = Some White\<rparr> \<and>
   clients_get (handleJoinRoom 1 (emptyMessage\<lparr>msg_roomCode := Some ''ZZZZZZ''\<rparr>) exampleState) 1
     = Some \<lparr>roomId = Some 1, playerId = Some 1, playerName = Some ''Ann'',
              color = Some White\<rparr> \<and>
   clients_get (handleJoinRoom 1 (emptyMessage\<lparr>msg_roomCode := Some [CHR 0x00]\<rparr>) exampleState) 1
     = Some \<lparr>roomId = Some 1, playerId = Some 1, playerName = Some ''Ann'',
              color = Some White\<rparr> \<and>
   clients_get (handleJoinRoom 1 (emptyMessage\<lparr>msg_roomCode := Some ''AAAAAA''\<rparr>) exampleState) 1
     = Some \<lparr>roomId = Some 1, playerId = Some 1, playerName = Some ''Ann'',
              color = Some White\<rparr> \<and>
   clients_get (handleCreateRoom toyChess ''0.aaaaaa'' 1 emptyMessage exampleState) 1
     = Some \<lparr>roomId = Some 1, playerId = Some 1, playerName = Some ''Ann'',
              color = Some White\<rparr>"
proof -
  let ?ann = "\<lparr>roomId = Some 1, playerId = Some 1, playerName = Some ''Ann'', color = Some White\<rparr>"
  have ann: "clients_get exampleState 1 = Some ?ann"
    by (simp add: clients_get_def exampleState_def)
  have codes: "generateRoomCode ''0.i'' = ''I''" "generateRoomCode ''0.aaaaaa'' = ''AAAAAA''"
    by (simp_all add: generateRoomCode_def substring_def toUpperCase_def upperChar_def)
  have rs: "map room_code (rooms exampleState) = [''AAAAAA'', ''BBBBBB'']"
      "roomSeq exampleState = 3"
    by (simp_all add: exampleState_def)
  have look: "getRoomByCode (Some ''BBBBBB'') exampleState
        = DbOk (Some \<lparr>room_id = 2, room_code = ''BBBBBB'', player1Id = Some 1, player2Id = None,
                 isActive = True\<rparr>)"
      "getRoomByCode (Some ''AAAAAA'') exampleState
        = DbOk (Some \<lparr>room_id = 1, room_code = ''AAAAAA'', player1Id = Some 1,
                      player2Id = Some 2, isActive = True\<rparr>)"
      "getRoomByCode (Some ''ZZZZZZ'') exampleState = DbOk None"
      "getRoomByCode (Some [CHR 0x00]) exampleState = DbError"
    by (simp_all add: getRoomByCode_def dbAccepts_def exampleState_def)
  have a: "clients_get (handleJoinRoom 1 (emptyMessage\<lparr>msg_roomCode := Some ''BBBBBB''\<rparr>) exampleState) 1
     = Some \<lparr>roomId = Some 2, playerId = Some 2, playerName = Some ''Player 2'',
              color = Some Black\<rparr>"
    using rebinding_overwrites [OF ann, where rnd = "''0.i''" and chess = toyChess
        and message = "emptyMessage\<lparr>msg_roomCode := Some ''BBBBBB''\<rparr>"] look
    by (simp add: truthyNum_def orElse_def emptyMessage_def)
  have b: "clients_get (handleCreateRoom toyChess ''0.i'' 1 emptyMessage exampleState) 1
     = Some \<lparr>roomId = Some 3, playerId = Some 1, playerName = Some ''Player 1'',
              color = Some White\<rparr>"
    using rebinding_overwrites [OF ann, where rnd = "''0.i''" and chess = toyChess
        and message = emptyMessage] codes rs
    by (simp add: orElse_def emptyMessage_def)
  have c: "clients_get (handleJoinRoom 1 (emptyMessage\<lparr>msg_roomCode := Some ''ZZZZZZ''\<rparr>) exampleState) 1
     = Some ?ann"
    using rebinding_overwrites [OF ann, where rnd = "''0.i''" and chess = toyChess
        and message = "emptyMessage\<lparr>msg_roomCode := Some ''ZZZZZZ''\<rparr>"] look
    by simp
  have c': "clients_get (handleJoinRoom 1 (emptyMessage\<lparr>msg_roomCode := Some [CHR 0x00]\<rparr>) exampleState) 1
     = Some ?ann"
    using rebinding_overwrites [OF ann, where rnd = "''0.i''" and chess = toyChess
        and message = "emptyMessage\<lparr>msg_roomCode := Some [CHR 0x00]\<rparr>"] look
    by simp
  have d: "clients_get (handleJoinRoom 1 (emptyMessage\<lparr>msg_roomCode := Some ''AAAAAA''\<rparr>) exampleState) 1
     = Some ?ann"
    using rebinding_overwrites [OF ann, where rnd = "''0.i''" and chess = toyChess
        and message = "emptyMessage\<lparr>msg_roomCode := Some ''AAAAAA''\<rparr>"] look
    by (simp add: truthyNum_def)
  have e: "clients_get (handleCreateRoom toyChess ''0.aaaaaa'' 1 emptyMessage exampleState) 1
     = Some ?ann"
    using rebinding_overwrites [OF ann, where rnd = "''0.aaaaaa''" and chess = toyChess
        and message = emptyMessage] codes rs
    by simp
  from a b c c' d e show ?thesis by simp
qed

subsection \<open>Chat\<close>

lemma orElse_nonempty: "d \<noteq> [] \<Longrightarrow> orElse v d \<noteq> []"
  by (simp add: orElse_def split: option.splits)

lemma namedSessions_clients: "clients s' = clients s \<Longrightarrow> namedSessions s' = namedSessions s"
  by (simp add: namedSessions_def)

lemma namedSessions_setClient:
  assumes "namedSessions s"
    and "roomId c = None \<or> (case playerName c of None \<Rightarrow> False | Some n \<Rightarrow> n \<noteq> [])"
  shows "namedSessions (setClient ws c s)"
  using assms by (auto simp add: namedSessions_def setClient_def list_all_iff split: if_splits)

lemma clients_handleMakeMove: "clients (handleMakeMove chess ws message s) = clients s"
proof (rule ccontr)
  assume "clients (handleMakeMove chess ws message s) \<noteq> clients s"
  then show False
    by (auto simp add: handleMakeMove_def Let_def split: option.splits if_splits prod.splits)
qed

lemma clients_addChatMessage: "clients (snd (addChatMessage rid pid pname p s)) = clients s"
  by (simp add: addChatMessage_def Let_def split: option.splits)

lemma clients_handleSendChat: "clients (handleSendChat ws message s) = clients s"
proof (cases "clients_get s ws")
  case None
  then show ?thesis by (simp add: handleSendChat_def)
next
  case (Some client)
  let ?add = "addChatMessage (the (roomId client))
                (if truthyNum (playerId client) then playerId client else None)
                (orElse (playerName client) ''Anonymous'') (msg_message message) s"
  obtain r s1 where ad: "?add = (r, s1)"
    by (cases ?add)
  with clients_addChatMessage [of "the (roomId client)"
      "if truthyNum (playerId client) then playerId client else None"
      "orElse (playerName client) ''Anonymous''" "msg_message message" s]
  have "clients s1 = clients s"
    by simp
  then show ?thesis
    using Some ad by (cases r) (simp_all add: handleSendChat_def)
qed

lemma clients_handleResign: "clients (handleResign ws s) = clients s"
  by (simp add: handleResign_def Let_def split: option.splits)

lemma clients_handleOfferDraw: "clients (handleOfferDraw ws s) = clients s"
  by (simp add: handleOfferDraw_def split: option.splits)

lemma clients_handleCreateRoom:
  "clients (handleCreateRoom chess rnd ws message s)
     = (if generateRoomCode rnd \<in> set (map room_code (rooms s)) then clients s
        else case clients_get s ws of
               None \<Rightarrow> clients s
             | Some client \<Rightarrow>
                 clients (setClient ws
                   (client\<lparr>roomId := Some (roomSeq s), playerId := Some 1,
                           playerName := Some (orElse (msg_playerName message) ''Player 1''),
                           color := Some White\<rparr>) s))"
  by (simp add: handleCreateRoom_def createRoom_def createGame_def Let_def clients_get_def
      setClient_def updateRoom_def send_def split: option.splits)

lemma clients_handleJoinRoom:
  "clients (handleJoinRoom ws message s)
     = (case getRoomByCode (msg_roomCode message) s of
          DbError \<Rightarrow> clients s
        | DbOk None \<Rightarrow> clients s
        | DbOk (Some room) \<Rightarrow>
            if truthyNum (player2Id room) then clients s
            else case clients_get s ws of
                   None \<Rightarrow> clients s
                 | Some client \<Rightarrow>
                     clients (setClient ws
                       (client\<lparr>roomId := Some (room_id room), playerId := Some 2,
                               playerName := Some (orElse (msg_playerName message) ''Player 2''),
                               color := Some Black\<rparr>) s))"
  by (simp add: handleJoinRoom_def Let_def clients_get_def setClient_def updateRoom_def
      updateGame_def send_def broadcastToRoom_def split: dbresult.splits option.splits)

lemma namedSessions_handleCreateRoom:
  assumes "namedSessions s"
  shows "namedSessions (handleCreateRoom chess rnd ws message s)"
proof -
  have "namedSessions (setClient ws
          (client\<lparr>roomId := Some (roomSeq s), playerId := Some 1,
                  playerName := Some (orElse (msg_playerName message) ''Player 1''),
                  color := Some White\<rparr>) s)" for client
    by (rule namedSessions_setClient [OF assms]) (simp add: orElse_nonempty)
  then show ?thesis
    using assms unfolding namedSessions_def clients_handleCreateRoom
    by (simp split: option.splits)
qed

lemma namedSessions_handleJoinRoom:
  assumes "namedSessions s"
  shows "namedSessions (handleJoinRoom ws message s)"
proof -
  have "namedSessions (setClient ws
          (client\<lparr>roomId := Some rid, playerId := Some 2,
                  playerName := Some (orElse (msg_playerName message) ''Player 2''),
                  color := Some Black\<rparr>) s)" for client rid
    by (rule namedSessions_setClient [OF assms]) (simp add: orElse_nonempty)
  then show ?thesis
    using assms unfolding namedSessions_def clients_handleJoinRoom
    by (simp split: dbresult.splits option.splits)
qed

lemma namedSessions_step: "namedSessions s \<Longrightarrow> namedSessions (step chess s inp)"
proof (cases inp)
  case (Connect ws)
  assume "namedSessions s"
  then show ?thesis
    using Connect
    by (auto simp add: step_def onConnection_def Let_def send_def namedSessions_def setClient_def
        newClient_def list_all_iff split: if_splits)
next
  case (Disconnect ws)
  assume "namedSessions s"
  then show ?thesis
    using Disconnect by (auto simp add: step_def onClose_def namedSessions_def list_all_iff)
next
  case (Frame ws fr rnd)
  assume "namedSessions s"
  then show ?thesis
    using Frame
    by (auto simp add: step_def onMessage_def handleWebSocketMessage_def send_def
        namedSessions_handleCreateRoom namedSessions_handleJoinRoom
        namedSessions_clients [OF clients_handleMakeMove]
        namedSessions_clients [OF clients_handleSendChat]
        namedSessions_clients [OF clients_handleResign]
        namedSessions_clients [OF clients_handleOfferDraw]
        intro: namedSessions_clients [THEN iffD2]
        split: frame.splits option.splits)
qed

lemma namedSessions_foldl:
  "namedSessions s \<Longrightarrow> namedSessions (foldl (step chess) s inps)"
  by (induction inps arbitrary: s) (simp_all add: namedSessions_step)

lemma namedSessions_run: "namedSessions (run chess inps)"
  unfolding run_def
  by (rule namedSessions_foldl) (simp add: namedSessions_def initialState_def)

text \<open>
  Claim C10 (\<^verbatim>\<open>send_chat\<close> persists and broadcasts any payload, a missing message field
  included). The column \<^verbatim>\<open>chat_messages.message\<close> is \<^verbatim>\<open>notNull()\<close>: with the field missing
  the insert throws, no row is stored, nothing is broadcast, and the sender is told
  \<^verbatim>\<open>'Failed to send chat message'\<close>.
\<close>

theorem missing_chat_text_not_persisted:
  "chatMessages (handleSendChat 1 emptyMessage exampleState) = chatMessages exampleState \<and>
   outbox (handleSendChat 1 emptyMessage exampleState) = [(1, Error ''Failed to send chat message'')]"
  by (simp add: handleSendChat_def emptyMessage_def exampleState_def clients_get_def truthyNum_def
      addChatMessage_def payloadText_def dbAccepts_def orElse_def send_def Let_def)

text \<open>
  Claim C10, amended. \<^verbatim>\<open>send_chat\<close> from a socket bound to a room does not look at the
  payload. A string, the empty one included, and any other JSON value but \<^verbatim>\<open>null\<close>, as
  the text the driver renders it to, is stored as a new row and broadcast to every open
  socket bound to the room (the sender among them), provided the database accepts the text
  and the name, that is, neither holds U+0000. The stored and broadcast name is the
  session's \<^verbatim>\<open>playerName\<close>, or \<^verbatim>\<open>'Anonymous'\<close> for a session with none or an empty one;
  no sequence of inputs leaves a bound session without a name. A message with no text, and
  one whose text or name the database refuses, makes the insert throw: no row, no broadcast,
  one error to the sender.
\<close>

theorem send_chat_unvalidated:
  assumes "clients_get s ws = Some client" and "roomId client = Some rid" and "rid \<noteq> 0"
    and "name = (case playerName client of
                   None \<Rightarrow> ''Anonymous''
                 | Some n \<Rightarrow> if n = [] then ''Anonymous'' else n)"
    and "seat = (case playerId client of
                   None \<Rightarrow> None
                 | Some k \<Rightarrow> if k = 0 then None else Some k)"
  shows "(\<forall>t. (msg_message message = Str t \<or> msg_message message = NonString t) \<and>
              CHR 0x00 \<notin> set t \<and> CHR 0x00 \<notin> set name \<longrightarrow>
            chatMessages (handleSendChat ws message s)
              = chatMessages s @
                [\<lparr>chat_id = chatSeq s, chat_roomId = rid, chat_playerId = seat,
                  chat_playerName = name, chat_message = t\<rparr>] \<and>
            outbox (handleSendChat ws message s)
              = outbox s @
                map (\<lambda>w. (w, ChatMessageEvent (chatSeq s) name t)) (recipients rid None s)) \<and>
         set (recipients rid None s)
           = {w. w \<in> set (openSockets s) \<and>
                 (\<exists>c. (w, c) \<in> set (clients s) \<and> roomId c = Some rid)} \<and>
         (msg_message message = Absent \<or> CHR 0x00 \<in> set name \<or>
          (\<exists>t. (msg_message message = Str t \<or> msg_message message = NonString t) \<and>
               CHR 0x00 \<in> set t) \<longrightarrow>
            chatMessages (handleSendChat ws message s) = chatMessages s \<and>
            outbox (handleSendChat ws message s)
              = outbox s @ [(ws, Error ''Failed to send chat message'')]) \<and>
         namedSessions (run chess inps)"
proof (intro conjI allI impI)
  have nm: "orElse (playerName client) ''Anonymous'' = name"
    using assms(4) by (simp add: orElse_def split: option.splits)
  have st: "(if truthyNum (playerId client) then playerId client else None) = seat"
    using assms(5) by (simp add: truthyNum_def split: option.splits)
  {
    fix t
    assume a: "(msg_message message = Str t \<or> msg_message message = NonString t) \<and>
              CHR 0x00 \<notin> set t \<and> CHR 0x00 \<notin> set name"
    then have pt: "payloadText (msg_message message) = Some t"
      by (auto simp add: payloadText_def)
    from a pt show "chatMessages (handleSendChat ws message s)
              = chatMessages s @
                [\<lparr>chat_id = chatSeq s, chat_roomId = rid, chat_playerId = seat,
                  chat_playerName = name, chat_message = t\<rparr>]"
      using assms(1-3)
      by (simp add: handleSendChat_def addChatMessage_def dbAccepts_def truthyNum_def [of "Some rid"]
          nm st Let_def broadcastToRoom_def)
    from a pt show "outbox (handleSendChat ws message s)
              = outbox s @
                map (\<lambda>w. (w, ChatMessageEvent (chatSeq s) name t)) (recipients rid None s)"
      using assms(1-3)
      by (simp add: handleSendChat_def addChatMessage_def dbAccepts_def truthyNum_def [of "Some rid"]
          nm st Let_def broadcastToRoom_def recipients_def)
  }
  show "set (recipients rid None s)
           = {w. w \<in> set (openSockets s) \<and>
                 (\<exists>c. (w, c) \<in> set (clients s) \<and> roomId c = Some rid)}"
    by (auto simp add: recipients_def image_iff)
  {
    assume a: "msg_message message = Absent \<or> CHR 0x00 \<in> set name \<or>
          (\<exists>t. (msg_message message = Str t \<or> msg_message message = NonString t) \<and>
               CHR 0x00 \<in> set t)"
    then have "fst (addChatMessage rid seat name (msg_message message) s) = None \<and>
        chatMessages (snd (addChatMessage rid seat name (msg_message message) s)) = chatMessages s \<and>
        outbox (snd (addChatMessage rid seat name (msg_message message) s)) = outbox s"
      by (auto simp add: addChatMessage_def dbAccepts_def payloadText_def Let_def
          split: payload.splits)
    then obtain s1 where ad: "addChatMessage rid seat name (msg_message message) s = (None, s1)"
      and s1: "chatMessages s1 = chatMessages s" "outbox s1 = outbox s"
      by (cases "addChatMessage rid seat name (msg_message message) s") auto
    show "chatMessages (handleSendChat ws message s) = chatMessages s"
      using assms(1-3) ad s1
      by (simp add: handleSendChat_def truthyNum_def [of "Some rid"] nm st send_def)
    show "outbox (handleSendChat ws message s)
              = outbox s @ [(ws, Error ''Failed to send chat message'')]"
      using assms(1-3) ad s1
      by (simp add: handleSendChat_def truthyNum_def [of "Some rid"] nm st send_def)
  }
  show "namedSessions (run chess inps)"
    by (rule namedSessions_run)
qed

text \<open>
  C10 as amended, on concrete inputs: Ann, White of room 1, sends the empty text, the number
  42, no text, and a text that holds U+0000; and a run in which socket 1 creates a room
  without giving a name.
\<close>

theorem send_chat_unvalidated_witness:
  "chatMessages (handleSendChat 1 (emptyMessage\<lparr>msg_message := Str []\<rparr>) exampleState)
     = [\<lparr>chat_id = 1, chat_roomId = 1, chat_playerId = Some 1,
         chat_playerName = ''Ann'', chat_message = []\<rparr>] \<and>
   outbox (handleSendChat 1 (emptyMessage\<lparr>msg_message := Str []\<rparr>) exampleState)
     = [(1, ChatMessageEvent 1 ''Ann'' []), (2, ChatMessageEvent 1 ''Ann'' [])] \<and>
   chatMessages (handleSendChat 1 (emptyMessage\<lparr>msg_message := NonString ''42''\<rparr>) exampleState)
     = [\<lparr>chat_id = 1, chat_roomId = 1, chat_playerId = Some 1,
         chat_playerName = ''Ann'', chat_message = ''42''\<rparr>] \<and>
   set (recipients 1 None exampleState) = {1, 2} \<and>
   chatMessages (handleSendChat 1 emptyMessage exampleState) = [] \<and>
   outbox (handleSendChat 1 emptyMessage exampleState)
     = [(1, Error ''Failed to send chat message'')] \<and>
   chatMessages (handleSendChat 1 (emptyMessage\<lparr>msg_message := Str [CHR 0x00]\<rparr>) exampleState) = [] \<and>
   outbox (handleSendChat 1 (emptyMessage\<lparr>msg_message := Str [CHR 0x00]\<rparr>) exampleState)
     = [(1, Error ''Failed to send chat message'')] \<and>
   namedSessions
     (run toyChess
        [Connect 1, Frame 1 (Parsed (emptyMessage\<lparr>msg_type := Some ''create_room''\<rparr>)) ''0.i''])"
proof -
  let ?ann = "\<lparr>roomId = Some 1, playerId = Some 1, playerName = Some ''Ann'', color = Some White\<rparr>"
  let ?inps = "[Connect 1, Frame 1 (Parsed (emptyMessage\<lparr>msg_type := Some ''create_room''\<rparr>)) ''0.i'']"
  have ann: "clients_get exampleState 1 = Some ?ann"
    by (simp add: clients_get_def exampleState_def)
  have rid: "roomId ?ann = Some 1" "(1::nat) \<noteq> 0"
    by simp_all
  have nm: "''Ann'' = (case playerName ?ann of
                         None \<Rightarrow> ''Anonymous''
                       | Some n \<Rightarrow> if n = [] then ''Anonymous'' else n)"
    and seat: "Some (1::nat) = (case playerId ?ann of
                          None \<Rightarrow> None
                        | Some k \<Rightarrow> if k = 0 then None else Some k)"
    by simp_all
  have st: "chatMessages exampleState = []" "outbox exampleState = []"
      "chatSeq exampleState = 1" "recipients 1 None exampleState = [1, 2]"
    by (simp_all add: exampleState_def recipients_def)
  note inst = send_chat_unvalidated [OF ann rid nm seat, where chess = toyChess and inps = ?inps]
  have a: "chatMessages (handleSendChat 1 (emptyMessage\<lparr>msg_message := Str []\<rparr>) exampleState)
       = [\<lparr>chat_id = 1, chat_roomId = 1, chat_playerId = Some 1,
           chat_playerName = ''Ann'', chat_message = []\<rparr>] \<and>
     outbox (handleSendChat 1 (emptyMessage\<lparr>msg_message := Str []\<rparr>) exampleState)
       = [(1, ChatMessageEvent 1 ''Ann'' []), (2, ChatMessageEvent 1 ''Ann'' [])] \<and>
     set (recipients 1 None exampleState) = {1, 2}"
    using inst [where message = "emptyMessage\<lparr>msg_message := Str []\<rparr>"] st
    by simp
  have b: "chatMessages (handleSendChat 1 (emptyMessage\<lparr>msg_message := NonString ''42''\<rparr>) exampleState)
       = [\<lparr>chat_id = 1, chat_roomId = 1, chat_playerId = Some 1,
           chat_playerName = ''Ann'', chat_message = ''42''\<rparr>]"
    using inst [where message = "emptyMessage\<lparr>msg_message := NonString ''42''\<rparr>"] st
    by simp
  have c: "chatMessages (handleSendChat 1 emptyMessage exampleState) = [] \<and>
     outbox (handleSendChat 1 emptyMessage exampleState)
       = [(1, Error ''Failed to send chat message'')]"
    using inst [where message = emptyMessage] st
    by (simp add: emptyMessage_def)
  have d: "chatMessages (handleSendChat 1 (emptyMessage\<lparr>msg_message := Str [CHR 0x00]\<rparr>) exampleState) = [] \<and>
     outbox (handleSendChat 1 (emptyMessage\<lparr>msg_message := Str [CHR 0x00]\<rparr>) exampleState)
       = [(1, Error ''Failed to send chat message'')]"
    using inst [where message = "emptyMessage\<lparr>msg_message := Str [CHR 0x00]\<rparr>"] st
    by simp
  have e: "namedSessions (run toyChess ?inps)"
    using inst [where message = emptyMessage] by simp
  from a b c d e show ?thesis by simp
qed

subsection \<open>A move that is played\<close>

lemma find_map_update:
  assumes "find P xs = Some g" and "\<And>x. P (f x) = P x" and "Q g"
  shows "find P (map (\<lambda>x. if Q x then f x else x) xs) = Some (f g)"
  using assms(1)
proof (induction xs)
  case Nil
  then show ?case by simp
next
  case (Cons x xs)
  show ?case
  proof (cases "P x")
    case True
    with Cons.prems have "x = g" by simp
    with True assms(2,3) show ?thesis by simp
  next
    case False
    with Cons.prems have "find P xs = Some g" by simp
    with Cons.IH False assms(2) show ?thesis by simp
  qed
qed

lemma find_Some_mem: "find P xs = Some g \<Longrightarrow> g \<in> set xs"
  by (induction xs) (auto split: if_splits)

lemma replayFrom_snoc:
  "replayFrom chess pos (sans @ [san])
     = (case replayFrom chess pos sans of None \<Rightarrow> None | Some p \<Rightarrow> chess_moveSan chess p san)"
  by (induction sans arbitrary: pos) (auto split: option.splits)

lemma attemptMove_Some:
  "attemptMove chess pos message = Some (move, pos') \<Longrightarrow>
     \<exists>c. chess_move chess pos (msg_from message) (msg_to message) c = MoveOk move pos'"
  by (auto simp add: attemptMove_def split: move_attempt.splits if_splits)

lemma replay_step:
  assumes coh: "coherentChess chess"
    and inv: "replayFen chess history = Some fen"
    and load: "chess_load chess fen = Some pos"
    and att: "attemptMove chess pos message = Some (move, pos')"
  shows "replayFen chess (history @ [move_san move]) = Some (chess_fen chess pos')"
proof -
  from inv obtain p where p: "replayFrom chess (chess_new chess) history = Some p"
    and fen: "chess_fen chess p = fen"
    by (auto simp add: replayFen_def)
  from coh have "chess_load chess (chess_fen chess p) = Some p"
    by (simp add: coherentChess_def)
  with fen load have "p = pos" by simp
  from attemptMove_Some [OF att] obtain c
    where "chess_move chess pos (msg_from message) (msg_to message) c = MoveOk move pos'" ..
  with coh have "chess_moveSan chess pos (move_san move) = Some pos'"
    unfolding coherentChess_def by blast
  with p \<open>p = pos\<close> show ?thesis
    by (simp add: replayFen_def replayFrom_snoc)
qed

lemma games_handleMakeMove_success:
  assumes "clients_get s ws = Some client" and "roomId client = Some rid" and "rid \<noteq> 0"
    and "getGameByRoomId rid s = Some game" and "status game = Active"
    and "color client = Some (currentTurn game)"
    and "chess_load chess (boardState game) = Some pos"
    and "chess_get chess pos (msg_from message) = Some piece"
    and "piece_color piece = expectedColor (currentTurn game)"
    and "attemptMove chess pos message = Some (move, pos')"
  shows "games (handleMakeMove chess ws message s)
           = map (\<lambda>g. if game_id g = game_id game
                       then g\<lparr>boardState := chess_fen chess pos',
                              currentTurn := (if chess_turn chess pos' = W then White else Black),
                              moveHistory := moveHistory game @ [move_san move],
                              status := (if chess_isCheckmate chess pos' then Checkmate else Active),
                              winner := (if chess_isCheckmate chess pos' then color client else None)\<rparr>
                       else g) (games s)"
  using assms
  by (simp add: handleMakeMove_def truthyNum_def broadcastToRoom_def updateGame_def Let_def
      turnColor_def)

lemma game_after_accepted_move:
  assumes "clients_get s ws = Some client" and "roomId client = Some rid" and "rid \<noteq> 0"
    and "getGameByRoomId rid s = Some game" and "status game = Active"
    and "color client = Some (currentTurn game)"
    and "chess_load chess (boardState game) = Some pos"
    and "chess_get chess pos (msg_from message) = Some piece"
    and "piece_color piece = expectedColor (currentTurn game)"
    and "attemptMove chess pos message = Some (move, pos')"
  shows "getGameByRoomId rid (handleMakeMove chess ws message s)
           = Some (game\<lparr>boardState := chess_fen chess pos',
                         currentTurn := (if chess_turn chess pos' = W then White else Black),
                         moveHistory := moveHistory game @ [move_san move],
                         status := (if chess_isCheckmate chess pos' then Checkmate else Active),
                         winner := (if chess_isCheckmate chess pos' then color client else None)\<rparr>)"
  unfolding getGameByRoomId_def games_handleMakeMove_success [OF assms]
  by (rule find_map_update) (use assms(4) in \<open>simp_all add: getGameByRoomId_def\<close>)

text \<open>
  The replay property is kept by every handler: only \<^verbatim>\<open>handleCreateRoom\<close> adds a game
  (at the starting position, with no moves), and only \<^verbatim>\<open>handleMakeMove\<close> writes
  \<open>boardState\<close> and \<open>moveHistory\<close>.
\<close>

lemma replayable_same_games: "games s' = games s \<Longrightarrow> replayable chess s' = replayable chess s"
  by (simp add: replayable_def)

lemma replayable_send [simp]: "replayable chess (send ws ev s) = replayable chess s"
  by (simp add: replayable_def send_def)

lemma replayable_broadcastToRoom [simp]:
  "replayable chess (broadcastToRoom rid ev ex s) = replayable chess s"
  by (simp add: replayable_def broadcastToRoom_def)

lemma replayable_updateRoom [simp]: "replayable chess (updateRoom rid f s) = replayable chess s"
  by (simp add: replayable_def updateRoom_def)

lemma replayable_setClient [simp]: "replayable chess (setClient ws c s) = replayable chess s"
  by (simp add: replayable_def setClient_def)

lemma replayable_updateGame:
  assumes "\<And>g. moveHistory (f g) = moveHistory g" and "\<And>g. boardState (f g) = boardState g"
    and "replayable chess s"
  shows "replayable chess (updateGame gid f s)"
  using assms by (auto simp add: replayable_def updateGame_def list_all_iff)

lemma replayable_createRoom: "replayable chess (snd (createRoom code s)) = replayable chess s"
  by (simp add: createRoom_def replayable_def Let_def)

lemma replayable_createGame:
  "replayable chess s \<Longrightarrow>
   replayable chess (snd (createGame rid turn (chess_fen chess (chess_new chess)) [] st s))"
  by (simp add: createGame_def replayable_def replayFen_def Let_def)

lemma replayable_addChatMessage:
  "replayable chess (snd (addChatMessage rid pid pname text s)) = replayable chess s"
  by (simp add: addChatMessage_def replayable_def Let_def split: option.splits)

lemma replayable_handleCreateRoom:
  assumes "replayable chess s"
  shows "replayable chess (handleCreateRoom chess rnd ws message s)"
proof -
  obtain r s1 where cr: "createRoom (generateRoomCode rnd) s = (r, s1)"
    by (cases "createRoom (generateRoomCode rnd) s")
  with assms replayable_createRoom [of chess "generateRoomCode rnd" s] have "replayable chess s1"
    by simp
  then show ?thesis
    by (cases r)
      (simp_all add: handleCreateRoom_def cr Let_def replayable_createGame split: option.splits)
qed

lemma replayable_handleJoinRoom:
  "replayable chess s \<Longrightarrow> replayable chess (handleJoinRoom ws message s)"
  by (simp add: handleJoinRoom_def Let_def replayable_updateGame
      split: dbresult.splits option.splits)

lemma replayable_handleSendChat:
  assumes "replayable chess s"
  shows "replayable chess (handleSendChat ws message s)"
proof (cases "clients_get s ws")
  case None
  then show ?thesis using assms by (simp add: handleSendChat_def)
next
  case (Some client)
  let ?add = "addChatMessage (the (roomId client))
                (if truthyNum (playerId client) then playerId client else None)
                (orElse (playerName client) ''Anonymous'') (msg_message message) s"
  obtain r s1 where ad: "?add = (r, s1)"
    by (cases ?add)
  with assms replayable_addChatMessage [of chess "the (roomId client)"
      "if truthyNum (playerId client) then playerId client else None"
      "orElse (playerName client) ''Anonymous''" "msg_message message" s]
  have "replayable chess s1"
    by simp
  then show ?thesis
    using assms Some ad by (cases r) (simp_all add: handleSendChat_def)
qed

lemma replayable_handleResign:
  "replayable chess s \<Longrightarrow> replayable chess (handleResign ws s)"
  by (simp add: handleResign_def Let_def replayable_updateGame split: option.splits)

lemma replayable_handleOfferDraw:
  "replayable chess s \<Longrightarrow> replayable chess (handleOfferDraw ws s)"
  by (simp add: handleOfferDraw_def split: option.splits)

lemma replayable_handleMakeMove:
  assumes coh: "coherentChess chess" and inv: "replayable chess s"
  shows "replayable chess (handleMakeMove chess ws message s)"
proof (cases "games (handleMakeMove chess ws message s) = games s")
  case True
  then show ?thesis using inv by (simp add: replayable_def)
next
  case False
  then obtain client rid game pos piece move pos'
    where c: "clients_get s ws = Some client" "roomId client = Some rid" "rid \<noteq> 0"
      "getGameByRoomId rid s = Some game" "status game = Active"
      "color client = Some (currentTurn game)"
      "chess_load chess (boardState game) = Some pos"
      "chess_get chess pos (msg_from message) = Some piece"
      "piece_color piece = expectedColor (currentTurn game)"
      "attemptMove chess pos message = Some (move, pos')"
    by (auto simp add: handleMakeMove_def truthyNum_def send_def
        split: option.splits if_splits prod.splits)
  have "game \<in> set (games s)"
    using c(4) by (simp add: getGameByRoomId_def find_Some_mem)
  with inv have "replayFen chess (moveHistory game) = Some (boardState game)"
    by (simp add: replayable_def list_all_iff)
  from replay_step [OF coh this c(7) c(10)] inv show ?thesis
    unfolding games_handleMakeMove_success [OF c] replayable_def list_all_iff
    by auto
qed

lemma replayable_step:
  "coherentChess chess \<Longrightarrow> replayable chess s \<Longrightarrow> replayable chess (step chess s inp)"
  by (cases inp)
    (auto simp add: step_def onConnection_def onClose_def onMessage_def handleWebSocketMessage_def
      setClient_def send_def Let_def replayable_handleCreateRoom replayable_handleJoinRoom
      replayable_handleMakeMove replayable_handleSendChat replayable_handleResign
      replayable_handleOfferDraw
      intro: replayable_same_games [THEN iffD2]
      split: frame.splits option.splits)

lemma replayable_foldl:
  "coherentChess chess \<Longrightarrow> replayable chess s \<Longrightarrow> replayable chess (foldl (step chess) s inps)"
  by (induction inps arbitrary: s) (simp_all add: replayable_step)

lemma replayable_run: "coherentChess chess \<Longrightarrow> replayable chess (run chess inps)"
  unfolding run_def
  by (rule replayable_foldl) (simp_all add: replayable_def initialState_def)

text \<open>
  Claim C3. When \<^verbatim>\<open>make_move\<close> passes every test and the library accepts the move, the
  game of the room afterwards is the game before with the FEN of the new position as
  \<open>boardState\<close>, the side to move of the new position as \<open>currentTurn\<close> (White when
  the library says \<^verbatim>\<open>'w'\<close>, Black when it says \<^verbatim>\<open>'b'\<close>), the move's SAN
  appended to \<open>moveHistory\<close>, and status \<^verbatim>\<open>'checkmate'\<close> with the mover as winner exactly
  when the library reports checkmate, status \<^verbatim>\<open>'active'\<close> with no winner otherwise (so
  never a draw). For a library that recovers a position from its FEN and replays a move from
  its SAN, a \<open>boardState\<close> that was the replay of \<open>moveHistory\<close> before is so after, for
  this game and for every game of the table; and it is so for every game in every state the
  server reaches from its start, whatever the connections send.
\<close>

theorem make_move_success:
  assumes "clients_get s ws = Some client" and "roomId client = Some rid" and "rid \<noteq> 0"
    and "getGameByRoomId rid s = Some game" and "status game = Active"
    and "color client = Some (currentTurn game)"
    and "chess_load chess (boardState game) = Some pos"
    and "chess_get chess pos (msg_from message) = Some piece"
    and "piece_color piece = expectedColor (currentTurn game)"
    and "attemptMove chess pos message = Some (move, pos')"
  shows "getGameByRoomId rid (handleMakeMove chess ws message s)
           = Some (game\<lparr>boardState := chess_fen chess pos',
                         currentTurn := (if chess_turn chess pos' = W then White else Black),
                         moveHistory := moveHistory game @ [move_san move],
                         status := (if chess_isCheckmate chess pos' then Checkmate else Active),
                         winner := (if chess_isCheckmate chess pos' then color client else None)\<rparr>) \<and>
         (coherentChess chess \<and> replayFen chess (moveHistory game) = Some (boardState game) \<longrightarrow>
            replayFen chess (moveHistory game @ [move_san move]) = Some (chess_fen chess pos')) \<and>
         (coherentChess chess \<and> replayable chess s \<longrightarrow>
            replayable chess (handleMakeMove chess ws message s)) \<and>
         (coherentChess chess \<longrightarrow> replayable chess (run chess inps))"
proof (intro conjI impI)
  show "getGameByRoomId rid (handleMakeMove chess ws message s)
           = Some (game\<lparr>boardState := chess_fen chess pos',
                         currentTurn := (if chess_turn chess pos' = W then White else Black),
                         moveHistory := moveHistory game @ [move_san move],
                         status := (if chess_isCheckmate chess pos' then Checkmate else Active),
                         winner := (if chess_isCheckmate chess pos' then color client else None)\<rparr>)"
    by (rule game_after_accepted_move [OF assms])
next
  assume "coherentChess chess \<and> replayFen chess (moveHistory game) = Some (boardState game)"
  then show "replayFen chess (moveHistory game @ [move_san move]) = Some (chess_fen chess pos')"
    using replay_step [OF _ _ assms(7) assms(10)] by blast
next
  assume "coherentChess chess \<and> replayable chess s"
  then show "replayable chess (handleMakeMove chess ws message s)"
    by (simp add: replayable_handleMakeMove)
next
  assume "coherentChess chess"
  then show "replayable chess (run chess inps)"
    by (rule replayable_run)
qed

text \<open>
  C3 on concrete inputs: White of room 1 plays e2-e4 in the position after two plies, which
  mates in the toy engine and leaves Black to move; Black of room 1 plays e7-e5 in the
  position after one ply, which does not mate and leaves White to move; and a run in which
  socket 1 creates a room, socket 2 joins it and both move.
\<close>

theorem make_move_success_witness:
  "getGameByRoomId 1
     (handleMakeMove toyChess 1 (emptyMessage\<lparr>msg_from := Some ''e2'', msg_to := Some ''e4''\<rparr>)
        exampleState)
     = Some \<lparr>game_id = 1, game_roomId = 1, currentTurn = Black, boardState = ''xxx'',
              moveHistory = [''e4'', ''e5'', ''e4''], status = Checkmate, winner = Some White\<rparr> \<and>
   getGameByRoomId 1
     (handleMakeMove toyChess 2 (emptyMessage\<lparr>msg_from := Some ''e7'', msg_to := Some ''e5''\<rparr>)
        blackToMoveState)
     = Some \<lparr>game_id = 1, game_roomId = 1, currentTurn = White, boardState = ''xx'',
              moveHistory = [''e4'', ''e5''], status = Active, winner = None\<rparr> \<and>
   coherentChess toyChess \<and>
   replayFen toyChess [''e4'', ''e5''] = Some ''xx'' \<and>
   replayFen toyChess [''e4'', ''e5'', ''e4''] = Some ''xxx'' \<and>
   replayable toyChess exampleState \<and>
   replayable toyChess
     (handleMakeMove toyChess 1 (emptyMessage\<lparr>msg_from := Some ''e2'', msg_to := Some ''e4''\<rparr>)
        exampleState) \<and>
   replayable toyChess
     (run toyChess
        [Connect 1,
         Frame 1 (Parsed (emptyMessage\<lparr>msg_type := Some ''create_room''\<rparr>)) ''0.i'',
         Connect 2,
         Frame 2 (Parsed (emptyMessage\<lparr>msg_type := Some ''join_room'', msg_roomCode := Some ''I''\<rparr>))
           ''0.i'',
         Frame 1 (Parsed (emptyMessage\<lparr>msg_type := Some ''make_move'', msg_from := Some ''e2'',
                                        msg_to := Some ''e4''\<rparr>)) ''0.i'',
         Frame 2 (Parsed (emptyMessage\<lparr>msg_type := Some ''make_move'', msg_from := Some ''e7'',
                                        msg_to := Some ''e5''\<rparr>)) ''0.i''])"
proof -
  let ?ann = "\<lparr>roomId = Some 1, playerId = Some 1, playerName = Some ''Ann'', color = Some White\<rparr>"
  let ?bob = "\<lparr>roomId = Some 1, playerId = Some 2, playerName = Some ''Bob'', color = Some Black\<rparr>"
  let ?play = "\<lparr>game_id = 1, game_roomId = 1, currentTurn = White, boardState = ''xx'',
                moveHistory = [''e4'', ''e5''], status = Active, winner = None\<rparr>"
  let ?early = "\<lparr>game_id = 1, game_roomId = 1, currentTurn = Black, boardState = ''x'',
                moveHistory = [''e4''], status = Active, winner = None\<rparr>"
  let ?wp = "\<lparr>piece_type = ''p'', piece_color = W\<rparr>"
  let ?bp = "\<lparr>piece_type = ''p'', piece_color = B\<rparr>"
  let ?m = "emptyMessage\<lparr>msg_from := Some ''e2'', msg_to := Some ''e4''\<rparr>"
  let ?k = "emptyMessage\<lparr>msg_from := Some ''e7'', msg_to := Some ''e5''\<rparr>"
  let ?e4 = "\<lparr>move_san = ''e4'', move_piece = ''p'', move_captured = None\<rparr>"
  let ?e5 = "\<lparr>move_san = ''e5'', move_piece = ''p'', move_captured = None\<rparr>"
  let ?inps = "[Connect 1,
         Frame 1 (Parsed (emptyMessage\<lparr>msg_type := Some ''create_room''\<rparr>)) ''0.i'',
         Connect 2,
         Frame 2 (Parsed (emptyMessage\<lparr>msg_type := Some ''join_room'', msg_roomCode := Some ''I''\<rparr>))
           ''0.i'',
         Frame 1 (Parsed (emptyMessage\<lparr>msg_type := Some ''make_move'', msg_from := Some ''e2'',
                                        msg_to := Some ''e4''\<rparr>)) ''0.i'',
         Frame 2 (Parsed (emptyMessage\<lparr>msg_type := Some ''make_move'', msg_from := Some ''e7'',
                                        msg_to := Some ''e5''\<rparr>)) ''0.i'']"
  have ann: "clients_get exampleState 1 = Some ?ann"
    and bob: "clients_get blackToMoveState 2 = Some ?bob"
    by (simp_all add: clients_get_def exampleState_def blackToMoveState_def)
  have rid: "roomId ?ann = Some 1" "roomId ?bob = Some 1" "(1::nat) \<noteq> 0"
    by simp_all
  have play: "getGameByRoomId 1 exampleState = Some ?play"
    and early: "getGameByRoomId 1 blackToMoveState = Some ?early"
    by (simp_all add: getGameByRoomId_def exampleState_def blackToMoveState_def)
  have act: "status ?play = Active" "color ?ann = Some (currentTurn ?play)"
    and act': "status ?early = Active" "color ?bob = Some (currentTurn ?early)"
    by simp_all
  have load: "chess_load toyChess (boardState ?play) = Some 2"
    and load': "chess_load toyChess (boardState ?early) = Some 1"
    by (simp_all add: toyChess_def)
  have pc: "chess_get toyChess 2 (msg_from ?m) = Some ?wp"
      "piece_color ?wp = expectedColor (currentTurn ?play)"
    and pc': "chess_get toyChess 1 (msg_from ?k) = Some ?bp"
      "piece_color ?bp = expectedColor (currentTurn ?early)"
    by (simp_all add: toyChess_def emptyMessage_def expectedColor_def)
  have att: "attemptMove toyChess 2 ?m = Some (?e4, 3)"
    and att': "attemptMove toyChess 1 ?k = Some (?e5, 2)"
    by (simp_all add: attemptMove_def toyChess_def emptyMessage_def)
  have coh: "coherentChess toyChess"
    by (simp add: coherentChess_def toyChess_def)
  have rp: "replayFen toyChess [''e4'', ''e5''] = Some ''xx''"
    by (simp add: replayFen_def toyChess_def)
  have all: "replayable toyChess exampleState"
    by (simp add: replayable_def exampleState_def replayFen_def toyChess_def)
  have fens: "chess_fen toyChess 3 = ''xxx''" "chess_fen toyChess 2 = ''xx''"
    by (simp_all add: toyChess_def numeral_3_eq_3 numeral_2_eq_2)
  have turns: "chess_turn toyChess 3 = B" "chess_turn toyChess 2 = W"
      "chess_isCheckmate toyChess 3" "\<not> chess_isCheckmate toyChess 2"
    by (simp_all add: toyChess_def)
  note eng = fens turns
  have white: "getGameByRoomId 1 (handleMakeMove toyChess 1 ?m exampleState)
       = Some \<lparr>game_id = 1, game_roomId = 1, currentTurn = Black, boardState = ''xxx'',
                moveHistory = [''e4'', ''e5'', ''e4''], status = Checkmate, winner = Some White\<rparr> \<and>
     replayFen toyChess [''e4'', ''e5'', ''e4''] = Some ''xxx'' \<and>
     replayable toyChess (handleMakeMove toyChess 1 ?m exampleState) \<and>
     replayable toyChess (run toyChess ?inps)"
    using make_move_success [OF ann rid(1) rid(3) play act load pc att, where inps = ?inps]
      coh rp all eng
    by simp
  have black: "getGameByRoomId 1 (handleMakeMove toyChess 2 ?k blackToMoveState)
       = Some \<lparr>game_id = 1, game_roomId = 1, currentTurn = White, boardState = ''xx'',
                moveHistory = [''e4'', ''e5''], status = Active, winner = None\<rparr>"
    using make_move_success [OF bob rid(2) rid(3) early act' load' pc' att', where inps = ?inps]
      eng
    by simp
  from white black coh rp all show ?thesis by simp
qed

subsection \<open>Promotion\<close>

lemma invalid_move_reply:
  assumes "clients_get s ws = Some client" and "roomId client = Some rid" and "rid \<noteq> 0"
    and "getGameByRoomId rid s = Some game" and "status game = Active"
    and "color client = Some (currentTurn game)"
    and "chess_load chess (boardState game) = Some pos"
    and "chess_get chess pos (msg_from message) = Some piece"
    and "piece_color piece = expectedColor (currentTurn game)"
    and "attemptMove chess pos message = None"
  shows "handleMakeMove chess ws message s
           = s\<lparr>outbox := outbox s @ [(ws, Error ''Invalid move'')]\<rparr>"
  using assms by (simp add: handleMakeMove_def truthyNum_def send_def)

text \<open>
  Claim C7. Once \<^verbatim>\<open>make_move\<close> has passed the tests of ownership, the move is first tried
  with \<^verbatim>\<open>from\<close> and \<^verbatim>\<open>to\<close> alone. A move the library accepts on that call is the move
  played: its position and notation are what is stored, and the promotion supplied plays no
  part (the stored games are those of the same message without promotion). If that call
  returns no move, the sender is told \<^verbatim>\<open>'Invalid move'\<close>. If it throws and a promotion was
  supplied, the move is tried once more with the promotion: accepted, it is the move played;
  refused, the sender is told \<^verbatim>\<open>'Invalid move'\<close>. If it throws and no promotion was
  supplied (none, or the empty string), the sender is told \<^verbatim>\<open>'Invalid move'\<close>. Each
  \<^verbatim>\<open>'Invalid move'\<close> goes to the sender alone and nothing else changes.
\<close>

theorem attempt_without_promotion_first:
  assumes "clients_get s ws = Some client" and "roomId client = Some rid" and "rid \<noteq> 0"
    and "getGameByRoomId rid s = Some game" and "status game = Active"
    and "color client = Some (currentTurn game)"
    and "chess_load chess (boardState game) = Some pos"
    and "chess_get chess pos (msg_from message) = Some piece"
    and "piece_color piece = expectedColor (currentTurn game)"
  shows "(\<forall>m p. chess_move chess pos (msg_from message) (msg_to message) None = MoveOk m p \<longrightarrow>
            attemptMove chess pos message = Some (m, p) \<and>
            getGameByRoomId rid (handleMakeMove chess ws message s)
              = Some (game\<lparr>boardState := chess_fen chess p,
                            currentTurn := (if chess_turn chess p = W then White else Black),
                            moveHistory := moveHistory game @ [move_san m],
                            status := (if chess_isCheckmate chess p then Checkmate else Active),
                            winner := (if chess_isCheckmate chess p then color client else None)\<rparr>)) \<and>
         (chess_move chess pos (msg_from message) (msg_to message) None = MoveNull \<longrightarrow>
            handleMakeMove chess ws message s
              = s\<lparr>outbox := outbox s @ [(ws, Error ''Invalid move'')]\<rparr>) \<and>
         (chess_move chess pos (msg_from message) (msg_to message) None \<noteq> MoveThrows \<longrightarrow>
            attemptMove chess pos message = attemptMove chess pos (message\<lparr>msg_promotion := None\<rparr>) \<and>
            games (handleMakeMove chess ws message s)
              = games (handleMakeMove chess ws (message\<lparr>msg_promotion := None\<rparr>) s)) \<and>
         (\<forall>q m p. chess_move chess pos (msg_from message) (msg_to message) None = MoveThrows \<and>
                msg_promotion message = Some q \<and> q \<noteq> [] \<and>
                chess_move chess pos (msg_from message) (msg_to message) (Some q) = MoveOk m p \<longrightarrow>
            attemptMove chess pos message = Some (m, p) \<and>
            getGameByRoomId rid (handleMakeMove chess ws message s)
              = Some (game\<lparr>boardState := chess_fen chess p,
                            currentTurn := (if chess_turn chess p = W then White else Black),
                            moveHistory := moveHistory game @ [move_san m],
                            status := (if chess_isCheckmate chess p then Checkmate else Active),
                            winner := (if chess_isCheckmate chess p then color client else None)\<rparr>)) \<and>
         (\<forall>q. chess_move chess pos (msg_from message) (msg_to message) None = MoveThrows \<and>
              msg_promotion message = Some q \<and> q \<noteq> [] \<and>
              (chess_move chess pos (msg_from message) (msg_to message) (Some q) = MoveThrows \<or>
               chess_move chess pos (msg_from message) (msg_to message) (Some q) = MoveNull) \<longrightarrow>
            handleMakeMove chess ws message s
              = s\<lparr>outbox := outbox s @ [(ws, Error ''Invalid move'')]\<rparr>) \<and>
         (chess_move chess pos (msg_from message) (msg_to message) None = MoveThrows \<and>
          (msg_promotion message = None \<or> msg_promotion message = Some []) \<longrightarrow>
            handleMakeMove chess ws message s
              = s\<lparr>outbox := outbox s @ [(ws, Error ''Invalid move'')]\<rparr>)"
proof (intro conjI allI impI)
  fix m p
  assume "chess_move chess pos (msg_from message) (msg_to message) None = MoveOk m p"
  then show att: "attemptMove chess pos message = Some (m, p)"
    by (simp add: attemptMove_def)
  show "getGameByRoomId rid (handleMakeMove chess ws message s)
          = Some (game\<lparr>boardState := chess_fen chess p,
                        currentTurn := (if chess_turn chess p = W then White else Black),
                        moveHistory := moveHistory game @ [move_san m],
                        status := (if chess_isCheckmate chess p then Checkmate else Active),
                        winner := (if chess_isCheckmate chess p then color client else None)\<rparr>)"
    by (rule game_after_accepted_move [OF assms att])
next
  assume "chess_move chess pos (msg_from message) (msg_to message) None = MoveNull"
  then have "attemptMove chess pos message = None"
    by (simp add: attemptMove_def)
  then show "handleMakeMove chess ws message s
      = s\<lparr>outbox := outbox s @ [(ws, Error ''Invalid move'')]\<rparr>"
    by (rule invalid_move_reply [OF assms])
next
  assume first: "chess_move chess pos (msg_from message) (msg_to message) None \<noteq> MoveThrows"
  then show att: "attemptMove chess pos message
      = attemptMove chess pos (message\<lparr>msg_promotion := None\<rparr>)"
    by (simp add: attemptMove_def split: move_attempt.splits)
  show "games (handleMakeMove chess ws message s)
          = games (handleMakeMove chess ws (message\<lparr>msg_promotion := None\<rparr>) s)"
    using assms att
    by (simp add: handleMakeMove_def truthyNum_def send_def broadcastToRoom_def updateGame_def
        Let_def split: option.splits prod.splits)
next
  fix q m p
  assume "chess_move chess pos (msg_from message) (msg_to message) None = MoveThrows \<and>
          msg_promotion message = Some q \<and> q \<noteq> [] \<and>
          chess_move chess pos (msg_from message) (msg_to message) (Some q) = MoveOk m p"
  then show att: "attemptMove chess pos message = Some (m, p)"
    by (simp add: attemptMove_def truthy_def)
  show "getGameByRoomId rid (handleMakeMove chess ws message s)
          = Some (game\<lparr>boardState := chess_fen chess p,
                        currentTurn := (if chess_turn chess p = W then White else Black),
                        moveHistory := moveHistory game @ [move_san m],
                        status := (if chess_isCheckmate chess p then Checkmate else Active),
                        winner := (if chess_isCheckmate chess p then color client else None)\<rparr>)"
    by (rule game_after_accepted_move [OF assms att])
next
  fix q
  assume "chess_move chess pos (msg_from message) (msg_to message) None = MoveThrows \<and>
          msg_promotion message = Some q \<and> q \<noteq> [] \<and>
          (chess_move chess pos (msg_from message) (msg_to message) (Some q) = MoveThrows \<or>
           chess_move chess pos (msg_from message) (msg_to message) (Some q) = MoveNull)"
  then have "attemptMove chess pos message = None"
    by (auto simp add: attemptMove_def truthy_def)
  then show "handleMakeMove chess ws message s
      = s\<lparr>outbox := outbox s @ [(ws, Error ''Invalid move'')]\<rparr>"
    by (rule invalid_move_reply [OF assms])
next
  assume "chess_move chess pos (msg_from message) (msg_to message) None = MoveThrows \<and>
          (msg_promotion message = None \<or> msg_promotion message = Some [])"
  then have "attemptMove chess pos message = None"
    by (auto simp add: attemptMove_def truthy_def)
  then show "handleMakeMove chess ws message s
      = s\<lparr>outbox := outbox s @ [(ws, Error ''Invalid move'')]\<rparr>"
    by (rule invalid_move_reply [OF assms])
qed

text \<open>
  C7 on concrete inputs, in the position after two plies with White to move: White of room 1
  plays e2-e4 with a needless promotion, then a7-a8 with promotion to a queen, without
  promotion, with the empty promotion, and with a promotion the engine rejects.
\<close>

theorem attempt_without_promotion_first_witness:
  "getGameByRoomId 1
     (handleMakeMove toyChess 1
        (emptyMessage\<lparr>msg_from := Some ''e2'', msg_to := Some ''e4'', msg_promotion := Some ''q''\<rparr>)
        exampleState)
     = Some \<lparr>game_id = 1, game_roomId = 1, currentTurn = Black, boardState = ''xxx'',
              moveHistory = [''e4'', ''e5'', ''e4''], status = Checkmate, winner = Some White\<rparr> \<and>
   games (handleMakeMove toyChess 1
            (emptyMessage\<lparr>msg_from := Some ''e2'', msg_to := Some ''e4'', msg_promotion := Some ''q''\<rparr>)
            exampleState)
     = games (handleMakeMove toyChess 1
            (emptyMessage\<lparr>msg_from := Some ''e2'', msg_to := Some ''e4''\<rparr>) exampleState) \<and>
   attemptMove toyChess 2
       (emptyMessage\<lparr>msg_from := Some ''a7'', msg_to := Some ''a8'', msg_promotion := Some ''q''\<rparr>)
     = Some (\<lparr>move_san = ''a8=Q'', move_piece = ''p'', move_captured = None\<rparr>, 3) \<and>
   getGameByRoomId 1
     (handleMakeMove toyChess 1
        (emptyMessage\<lparr>msg_from := Some ''a7'', msg_to := Some ''a8'', msg_promotion := Some ''q''\<rparr>)
        exampleState)
     = Some \<lparr>game_id = 1, game_roomId = 1, currentTurn = Black, boardState = ''xxx'',
              moveHistory = [''e4'', ''e5'', ''a8=Q''], status = Checkmate,
              winner = Some White\<rparr> \<and>
   handleMakeMove toyChess 1 (emptyMessage\<lparr>msg_from := Some ''a7'', msg_to := Some ''a8''\<rparr>)
       exampleState
     = exampleState\<lparr>outbox := [(1, Error ''Invalid move'')]\<rparr> \<and>
   handleMakeMove toyChess 1
       (emptyMessage\<lparr>msg_from := Some ''a7'', msg_to := Some ''a8'', msg_promotion := Some []\<rparr>)
       exampleState
     = exampleState\<lparr>outbox := [(1, Error ''Invalid move'')]\<rparr> \<and>
   handleMakeMove toyChess 1
       (emptyMessage\<lparr>msg_from := Some ''a7'', msg_to := Some ''a8'', msg_promotion := Some ''x''\<rparr>)
       exampleState
     = exampleState\<lparr>outbox := [(1, Error ''Invalid move'')]\<rparr>"
proof -
  let ?ann = "\<lparr>roomId = Some 1, playerId = Some 1, playerName = Some ''Ann'', color = Some White\<rparr>"
  let ?play = "\<lparr>game_id = 1, game_roomId = 1, currentTurn = White, boardState = ''xx'',
                moveHistory = [''e4'', ''e5''], status = Active, winner = None\<rparr>"
  let ?pawn = "\<lparr>piece_type = ''p'', piece_color = W\<rparr>"
  let ?m1 = "emptyMessage\<lparr>msg_from := Some ''e2'', msg_to := Some ''e4'', msg_promotion := Some ''q''\<rparr>"
  let ?m2 = "emptyMessage\<lparr>msg_from := Some ''a7'', msg_to := Some ''a8'', msg_promotion := Some ''q''\<rparr>"
  let ?m3 = "emptyMessage\<lparr>msg_from := Some ''a7'', msg_to := Some ''a8''\<rparr>"
  let ?m4 = "emptyMessage\<lparr>msg_from := Some ''a7'', msg_to := Some ''a8'', msg_promotion := Some ''x''\<rparr>"
  let ?m5 = "emptyMessage\<lparr>msg_from := Some ''a7'', msg_to := Some ''a8'', msg_promotion := Some []\<rparr>"
  have ann: "clients_get exampleState 1 = Some ?ann"
    by (simp add: clients_get_def exampleState_def)
  have rid: "roomId ?ann = Some 1" "(1::nat) \<noteq> 0"
    by simp_all
  have play: "getGameByRoomId 1 exampleState = Some ?play"
    by (simp add: getGameByRoomId_def exampleState_def)
  have act: "status ?play = Active" "color ?ann = Some (currentTurn ?play)"
    by simp_all
  have load: "chess_load toyChess (boardState ?play) = Some 2"
    by (simp add: toyChess_def)
  have pc: "chess_get toyChess 2 (msg_from ?m1) = Some ?pawn"
      "chess_get toyChess 2 (msg_from ?m2) = Some ?pawn"
      "chess_get toyChess 2 (msg_from ?m3) = Some ?pawn"
      "chess_get toyChess 2 (msg_from ?m4) = Some ?pawn"
      "chess_get toyChess 2 (msg_from ?m5) = Some ?pawn"
      "piece_color ?pawn = expectedColor (currentTurn ?play)"
    by (simp_all add: toyChess_def emptyMessage_def expectedColor_def)
  have out: "outbox exampleState = []"
    by (simp add: exampleState_def)
  have fen: "chess_fen toyChess 3 = ''xxx''"
    by (simp add: toyChess_def numeral_3_eq_3)
  have eng: "chess_turn toyChess 3 = B" "chess_isCheckmate toyChess 3"
    by (simp_all add: toyChess_def)
  have mv: "chess_move toyChess 2 (msg_from ?m1) (msg_to ?m1) None
        = MoveOk \<lparr>move_san = ''e4'', move_piece = ''p'', move_captured = None\<rparr> 3"
      "chess_move toyChess 2 (msg_from ?m2) (msg_to ?m2) None = MoveThrows"
      "chess_move toyChess 2 (msg_from ?m2) (msg_to ?m2) (Some ''q'')
        = MoveOk \<lparr>move_san = ''a8=Q'', move_piece = ''p'', move_captured = None\<rparr> 3"
      "chess_move toyChess 2 (msg_from ?m3) (msg_to ?m3) None = MoveThrows"
      "chess_move toyChess 2 (msg_from ?m4) (msg_to ?m4) None = MoveThrows"
      "chess_move toyChess 2 (msg_from ?m4) (msg_to ?m4) (Some ''x'') = MoveThrows"
      "chess_move toyChess 2 (msg_from ?m5) (msg_to ?m5) None = MoveThrows"
    by (simp_all add: toyChess_def emptyMessage_def)
  have pr: "msg_promotion ?m2 = Some ''q''" "msg_promotion ?m3 = None"
      "msg_promotion ?m4 = Some ''x''" "msg_promotion ?m5 = Some []"
      "?m1\<lparr>msg_promotion := None\<rparr> = emptyMessage\<lparr>msg_from := Some ''e2'', msg_to := Some ''e4''\<rparr>"
    by (simp_all add: emptyMessage_def)
  have a: "getGameByRoomId 1 (handleMakeMove toyChess 1 ?m1 exampleState)
       = Some \<lparr>game_id = 1, game_roomId = 1, currentTurn = Black, boardState = ''xxx'',
                moveHistory = [''e4'', ''e5'', ''e4''], status = Checkmate, winner = Some White\<rparr> \<and>
     games (handleMakeMove toyChess 1 ?m1 exampleState)
       = games (handleMakeMove toyChess 1 (emptyMessage\<lparr>msg_from := Some ''e2'', msg_to := Some ''e4''\<rparr>)
            exampleState)"
    using attempt_without_promotion_first [OF ann rid play act load pc(1) pc(6)] mv(1) pr(5)
      fen eng
    by simp
  have b: "attemptMove toyChess 2 ?m2
       = Some (\<lparr>move_san = ''a8=Q'', move_piece = ''p'', move_captured = None\<rparr>, 3) \<and>
     getGameByRoomId 1 (handleMakeMove toyChess 1 ?m2 exampleState)
       = Some \<lparr>game_id = 1, game_roomId = 1, currentTurn = Black, boardState = ''xxx'',
                moveHistory = [''e4'', ''e5'', ''a8=Q''], status = Checkmate,
                winner = Some White\<rparr>"
    using attempt_without_promotion_first [OF ann rid play act load pc(2) pc(6)] mv(2,3) pr(1)
      fen eng
    by simp
  have c: "handleMakeMove toyChess 1 ?m3 exampleState
       = exampleState\<lparr>outbox := [(1, Error ''Invalid move'')]\<rparr>"
    using attempt_without_promotion_first [OF ann rid play act load pc(3) pc(6)] mv(4) pr(2) out
    by simp
  have d: "handleMakeMove toyChess 1 ?m4 exampleState
       = exampleState\<lparr>outbox := [(1, Error ''Invalid move'')]\<rparr>"
    using attempt_without_promotion_first [OF ann rid play act load pc(4) pc(6)] mv(5,6) pr(3) out
    by simp
  have e: "handleMakeMove toyChess 1 ?m5 exampleState
       = exampleState\<lparr>outbox := [(1, Error ''Invalid move'')]\<rparr>"
    using attempt_without_promotion_first [OF ann rid play act load pc(5) pc(6)] mv(7) pr(4) out
    by simp
  from a b c d e show ?thesis by simp
qed

subsection \<open>Room codes\<close>

lemma upperChar_base36_all:
  "\<forall>c \<in> set ''0123456789abcdefghijklmnopqrstuvwxyz''. isUpperAlnum (upperChar c)"
  by code_simp

lemma upperChar_base36: "isBase36Digit c \<Longrightarrow> isUpperAlnum (upperChar c)"
  using upperChar_base36_all unfolding isBase36Digit_def by blast

lemma room_code_updateRoom_field:
  "map room_code (map (\<lambda>r. if room_id r = rid then r\<lparr>player1Id := v\<rparr> else r) xs)
     = map room_code xs"
  by (induction xs) auto

lemma rooms_handleCreateRoom_fresh:
  "generateRoomCode rnd \<notin> set (map room_code (rooms s)) \<Longrightarrow>
   map room_code (rooms (handleCreateRoom chess rnd ws message s))
     = map room_code (rooms s) @ [generateRoomCode rnd]"
  by (simp add: handleCreateRoom_def createRoom_def createGame_def Let_def clients_get_def
      setClient_def updateRoom_def send_def room_code_updateRoom_field
      del: map_map split: option.splits)

lemma handleCreateRoom_collision:
  "generateRoomCode rnd \<in> set (map room_code (rooms s)) \<Longrightarrow>
   handleCreateRoom chess rnd ws message s
     = s\<lparr>roomSeq := Suc (roomSeq s), outbox := outbox s @ [(ws, Error ''Failed to create room'')]\<rparr>"
  by (simp add: handleCreateRoom_def createRoom_def Let_def send_def)

lemma generateRoomCode_long:
  assumes "rnd = CHR ''0'' # CHR ''.'' # ds" and "6 \<le> length ds"
  shows "generateRoomCode rnd = map upperChar (take 6 ds)"
  using assms by (simp add: generateRoomCode_def substring_def toUpperCase_def min_def max_def)

text \<open>
  Claim C4 (a room code has exactly six characters of \<^verbatim>\<open>[A-Z0-9]\<close>; codes are unique,
  with a retry when the code drawn collides). For \<^verbatim>\<open>Math.random() = 0.5\<close> the rendering is
  \<^verbatim>\<open>"0.i"\<close> and the code is \<^verbatim>\<open>I\<close>, one character. And when the same number is drawn for
  a second \<^verbatim>\<open>create_room\<close>, no other code is tried: no room is added and the second
  socket is told \<^verbatim>\<open>'Failed to create room'\<close>.
\<close>

theorem room_code_short_and_collision_not_retried:
  "generateRoomCode ''0.i'' = ''I'' \<and>
   length (generateRoomCode ''0.i'') \<noteq> 6 \<and>
   map room_code (rooms (handleCreateRoom toyChess ''0.i'' 1 emptyMessage exampleState))
     = [''AAAAAA'', ''BBBBBB'', ''I''] \<and>
   rooms (handleCreateRoom toyChess ''0.i'' 2 emptyMessage
            (handleCreateRoom toyChess ''0.i'' 1 emptyMessage exampleState))
     = rooms (handleCreateRoom toyChess ''0.i'' 1 emptyMessage exampleState) \<and>
   outbox (handleCreateRoom toyChess ''0.i'' 2 emptyMessage
            (handleCreateRoom toyChess ''0.i'' 1 emptyMessage exampleState))
     = outbox (handleCreateRoom toyChess ''0.i'' 1 emptyMessage exampleState)
       @ [(2, Error ''Failed to create room'')]"
proof -
  have code: "generateRoomCode ''0.i'' = ''I''"
    by (simp add: generateRoomCode_def substring_def toUpperCase_def upperChar_def)
  have fresh: "generateRoomCode ''0.i'' \<notin> set (map room_code (rooms exampleState))"
    by (simp add: code exampleState_def)
  have r1: "map room_code (rooms (handleCreateRoom toyChess ''0.i'' 1 emptyMessage exampleState))
     = [''AAAAAA'', ''BBBBBB'', ''I'']"
    using rooms_handleCreateRoom_fresh [OF fresh] by (simp add: code exampleState_def)
  have taken: "generateRoomCode ''0.i'' \<in> set (map room_code
      (rooms (handleCreateRoom toyChess ''0.i'' 1 emptyMessage exampleState)))"
    unfolding r1 by (simp add: code)
  show ?thesis
    using code r1 handleCreateRoom_collision [OF taken, of toyChess 2 emptyMessage]
    by simp
qed

text \<open>
  Claim C4, amended. When the rendering of the random number is \<^verbatim>\<open>0.\<close> followed by at
  least six base-36 digits, the code has exactly six characters, all of \<^verbatim>\<open>[A-Z0-9]\<close>.
  The codes of the rooms in the table stay pairwise distinct, because the table refuses a
  code it has: a fresh code adds one room with that code; a code in use adds no room, is not
  drawn again, and is answered with \<^verbatim>\<open>'Failed to create room'\<close> to the sender, rooms, games
  and bindings being as before.
\<close>

theorem room_code_format_and_uniqueness:
  "(\<forall>ds. rnd = CHR ''0'' # CHR ''.'' # ds \<and> 6 \<le> length ds \<and> (\<forall>c \<in> set ds. isBase36Digit c) \<longrightarrow>
      length (generateRoomCode rnd) = 6 \<and> (\<forall>c \<in> set (generateRoomCode rnd). isUpperAlnum c)) \<and>
   (distinct (map room_code (rooms s)) \<longrightarrow>
      distinct (map room_code (rooms (handleCreateRoom chess rnd ws message s)))) \<and>
   (generateRoomCode rnd \<notin> set (map room_code (rooms s)) \<longrightarrow>
      map room_code (rooms (handleCreateRoom chess rnd ws message s))
        = map room_code (rooms s) @ [generateRoomCode rnd]) \<and>
   (generateRoomCode rnd \<in> set (map room_code (rooms s)) \<longrightarrow>
      rooms (handleCreateRoom chess rnd ws message s) = rooms s \<and>
      games (handleCreateRoom chess rnd ws message s) = games s \<and>
      clients (handleCreateRoom chess rnd ws message s) = clients s \<and>
      outbox (handleCreateRoom chess rnd ws message s)
        = outbox s @ [(ws, Error ''Failed to create room'')])"
proof (intro conjI allI impI)
  fix ds
  assume a: "rnd = CHR ''0'' # CHR ''.'' # ds \<and> 6 \<le> length ds \<and> (\<forall>c \<in> set ds. isBase36Digit c)"
  then have eq: "generateRoomCode rnd = map upperChar (take 6 ds)"
    using generateRoomCode_long by blast
  from a have "6 \<le> length ds" by blast
  then show "length (generateRoomCode rnd) = 6"
    unfolding eq by simp
  show "\<forall>c \<in> set (generateRoomCode rnd). isUpperAlnum c"
  proof
    fix c assume "c \<in> set (generateRoomCode rnd)"
    then obtain d where "d \<in> set (take 6 ds)" and "c = upperChar d"
      by (auto simp add: eq)
    moreover from this a have "isBase36Digit d"
      by (meson in_set_takeD)
    ultimately show "isUpperAlnum c"
      by (simp add: upperChar_base36)
  qed
next
  assume d: "distinct (map room_code (rooms s))"
  show "distinct (map room_code (rooms (handleCreateRoom chess rnd ws message s)))"
  proof (cases "generateRoomCode rnd \<in> set (map room_code (rooms s))")
    case True
    then show ?thesis using d by (simp add: handleCreateRoom_collision)
  next
    case False
    then show ?thesis using d by (simp add: rooms_handleCreateRoom_fresh)
  qed
next
  assume "generateRoomCode rnd \<notin> set (map room_code (rooms s))"
  then show "map room_code (rooms (handleCreateRoom chess rnd ws message s))
        = map room_code (rooms s) @ [generateRoomCode rnd]"
    by (rule rooms_handleCreateRoom_fresh)
next
  assume c: "generateRoomCode rnd \<in> set (map room_code (rooms s))"
  show "rooms (handleCreateRoom chess rnd ws message s) = rooms s"
    and "games (handleCreateRoom chess rnd ws message s) = games s"
    and "clients (handleCreateRoom chess rnd ws message s) = clients s"
    and "outbox (handleCreateRoom chess rnd ws message s)
        = outbox s @ [(ws, Error ''Failed to create room'')]"
    by (simp_all add: handleCreateRoom_collision [OF c])
qed

text \<open>C4 as amended, on concrete inputs.\<close>

theorem room_code_format_and_uniqueness_witness:
  "length (generateRoomCode ''0.abc123xyz'') = 6 \<and>
   list_all isUpperAlnum (generateRoomCode ''0.abc123xyz'') \<and>
   distinct (map room_code (rooms (handleCreateRoom toyChess ''0.i'' 3 emptyMessage exampleState))) \<and>
   map room_code (rooms (handleCreateRoom toyChess ''0.i'' 3 emptyMessage exampleState))
     = [''AAAAAA'', ''BBBBBB'', ''I''] \<and>
   rooms (handleCreateRoom toyChess ''0.aaaaaa'' 3 emptyMessage exampleState) = rooms exampleState \<and>
   outbox (handleCreateRoom toyChess ''0.aaaaaa'' 3 emptyMessage exampleState)
     = [(3, Error ''Failed to create room'')]"
proof -
  have digits: "''0.abc123xyz'' = CHR ''0'' # CHR ''.'' # ''abc123xyz'' \<and> 6 \<le> length ''abc123xyz'' \<and>
      (\<forall>c \<in> set ''abc123xyz''. isBase36Digit c)"
    by (simp add: isBase36Digit_def)
  have codes: "generateRoomCode ''0.i'' = ''I''" "generateRoomCode ''0.aaaaaa'' = ''AAAAAA''"
    by (simp_all add: generateRoomCode_def substring_def toUpperCase_def upperChar_def)
  have st: "map room_code (rooms exampleState) = [''AAAAAA'', ''BBBBBB'']" "outbox exampleState = []"
    by (simp_all add: exampleState_def)
  have a: "length (generateRoomCode ''0.abc123xyz'') = 6 \<and>
      (\<forall>c \<in> set (generateRoomCode ''0.abc123xyz''). isUpperAlnum c)"
    using room_code_format_and_uniqueness [where rnd = "''0.abc123xyz''" and s = exampleState
        and chess = toyChess and ws = 3 and message = emptyMessage,
        THEN conjunct1, THEN spec, THEN mp, OF digits] .
  have b: "distinct (map room_code (rooms (handleCreateRoom toyChess ''0.i'' 3 emptyMessage exampleState))) \<and>
      map room_code (rooms (handleCreateRoom toyChess ''0.i'' 3 emptyMessage exampleState))
        = [''AAAAAA'', ''BBBBBB'', ''I'']"
    using room_code_format_and_uniqueness [where rnd = "''0.i''" and s = exampleState
        and chess = toyChess and ws = 3 and message = emptyMessage] codes st
    by simp
  have c: "rooms (handleCreateRoom toyChess ''0.aaaaaa'' 3 emptyMessage exampleState) = rooms exampleState \<and>
      outbox (handleCreateRoom toyChess ''0.aaaaaa'' 3 emptyMessage exampleState)
        = [(3, Error ''Failed to create room'')]"
    using room_code_format_and_uniqueness [where rnd = "''0.aaaaaa''" and s = exampleState
        and chess = toyChess and ws = 3 and message = emptyMessage] codes st
    by simp
  from a b c show ?thesis by (simp add: list_all_iff)
qed

end
